theory Spec2Isabelle
  imports Main "HOL-Library.Sublist"
begin

section \<open>Strings and regular expressions of the Go standard library\<close>

text \<open>
  Go strings are byte sequences; they are modelled by \<open>string\<close> (a list of 8-bit
  characters). \<open>strings.Contains s substr\<close> reports whether \<open>substr\<close> occurs
  within \<open>s\<close>: some suffix of \<open>s\<close> starts with \<open>substr\<close>.
\<close>

fun strings_Contains :: "string \<Rightarrow> string \<Rightarrow> bool" where
  "strings_Contains [] substr = (substr = [])"
| "strings_Contains (c # cs) substr =
     (prefix substr (c # cs) \<or> strings_Contains cs substr)"

text \<open>
  The fragment of Go's \<open>regexp\<close> syntax that the source uses: literals, a character
  class, alternation, concatenation and the begin-of-text anchor \<open>^\<close>. A matcher state
  is the text already passed and the text still ahead; \<open>regexp_step\<close> returns every
  state reachable by matching the expression at the current position.
\<close>

datatype regexp =
    Literal string
  | CharClass "char list"
  | Alternate regexp regexp
  | Concat regexp regexp
  | BeginText

fun regexp_step :: "regexp \<Rightarrow> string \<times> string \<Rightarrow> (string \<times> string) list" where
  "regexp_step (Literal l) (passed, ahead) =
     (if prefix l ahead then [(passed @ l, drop (length l) ahead)] else [])"
| "regexp_step (CharClass cs) (passed, ahead) =
     (case ahead of
        [] \<Rightarrow> []
      | c # rest \<Rightarrow> if c \<in> set cs then [(passed @ [c], rest)] else [])"
| "regexp_step (Alternate r1 r2) st = regexp_step r1 st @ regexp_step r2 st"
| "regexp_step (Concat r1 r2) st = concat (map (regexp_step r2) (regexp_step r1 st))"
| "regexp_step BeginText (passed, ahead) = (if passed = [] then [(passed, ahead)] else [])"

text \<open>\<open>MatchString\<close> reports whether the text contains any match of the expression.\<close>

definition MatchString :: "regexp \<Rightarrow> string \<Rightarrow> bool" where
  "MatchString r s =
     list_ex (\<lambda>i. regexp_step r (take i s, drop i s) \<noteq> []) [0 ..< Suc (length s)]"

section \<open>Reserved and forbidden label or tag keys\<close>

text \<open>
  \<open>matakubeResourceNodeDeploymentLabelOrTagReserved\<close> walks the fixed list of reserved
  substrings and returns at the first one the path contains.
\<close>

definition reservedSubstrings :: "string list" where
  "reservedSubstrings =
     [''metakube-cluster'', ''system-project'', ''system-cluster'', ''system/cluster'',
      ''system/project'', ''kubernetes.io'', ''syseleven.de'']"

fun reservedRange :: "string \<Rightarrow> string list \<Rightarrow> bool" where
  "reservedRange path [] = False"
| "reservedRange path (substr # rest) =
     (if strings_Contains path substr then True else reservedRange path rest)"

definition matakubeResourceNodeDeploymentLabelOrTagReserved :: "string \<Rightarrow> bool" where
  "matakubeResourceNodeDeploymentLabelOrTagReserved path =
     reservedRange path reservedSubstrings"

text \<open>
  The forbidden-prefix expression
  \<^verbatim>\<open>^(syseleven\.de|metakube|system|kubernetes\.io)([/\-])\<close>.
\<close>

definition forbiddenPrefixRegexp :: regexp where
  "forbiddenPrefixRegexp =
     Concat BeginText
       (Concat
          (Alternate (Literal ''syseleven.de'')
             (Alternate (Literal ''metakube'')
                (Alternate (Literal ''system'') (Literal ''kubernetes.io''))))
          (CharClass ''/-''))"

text \<open>A Go \<open>error\<close> is modelled by its message; \<open>None\<close> is the nil error.\<close>

type_synonym error = string

definition matakubeResourceNodeDeploymentValidateLabelOrTag :: "string \<Rightarrow> error option" where
  "matakubeResourceNodeDeploymentValidateLabelOrTag key =
     (if MatchString forbiddenPrefixRegexp key
      then Some (''forbidden tag or label prefix '' @ key)
      else None)"

section \<open>Values, diagnostics and the schema descriptor\<close>

text \<open>
  A Go \<open>interface{}\<close> value as the host framework hands it to a validator. A map value
  is an association list: its order stands for the order in which \<open>range\<close> visits
  the keys. Go's \<open>int\<close> is modelled by \<open>int\<close>; the code only compares such values.
\<close>

datatype iface =
    VNil
  | VBool bool
  | VInt int
  | VString string
  | VList "iface list"
  | VMap "(string \<times> iface) list"

text \<open>A failed type assertion \<open>v.(T)\<close> panics; a panic is a result of its own.\<close>

datatype panic = InterfaceConversion

datatype PathStep = GetAttrStep string | IndexStep iface

type_synonym cty_Path = "PathStep list"

datatype Severity = Error | Warning

record Diagnostic =
  Severity :: Severity
  Summary :: string
  Detail :: string
  AttributePath :: cty_Path

text \<open>
  The resource data as the closures of this file see it: through
  \<open>GetOkConfigured\<close>, which returns the value stored under a key and whether it is
  configured.
\<close>

record ResourceData =
  GetOkConfigured :: "string \<Rightarrow> iface \<times> bool"

datatype ValueType =
  TypeInvalid | TypeBool | TypeInt | TypeFloat | TypeString | TypeList | TypeMap | TypeSet

text \<open>
  The fields of \<open>schema.Schema\<close> that this file sets. A Go struct literal leaves the
  fields it does not mention at their zero value, which is \<open>zeroSchema\<close>; a field
  descriptor is written as an update of it. \<open>Elem\<close> is kept beside the record because it
  nests descriptors.
\<close>

record SchemaAttrs =
  Type :: ValueType
  Optional :: bool
  Required :: bool
  Computed :: bool
  ForceNew :: bool
  Default :: "iface option"
  Description :: string
  MinItems :: int
  MaxItems :: int
  ConflictsWith :: "string list"
  RequiredWith :: "string list"
  ExactlyOneOf :: "string list"
  DiffSuppressFunc :: "(string \<Rightarrow> string \<Rightarrow> string \<Rightarrow> ResourceData \<Rightarrow> panic + bool) option"
  ValidateFunc :: "(iface \<Rightarrow> string \<Rightarrow> panic + string list \<times> error list) option"
  ValidateDiagFunc :: "(iface \<Rightarrow> cty_Path \<Rightarrow> Diagnostic list) option"

definition zeroSchema :: SchemaAttrs where
  "zeroSchema =
     \<lparr>Type = TypeInvalid, Optional = False, Required = False, Computed = False,
      ForceNew = False, Default = None, Description = [], MinItems = 0, MaxItems = 0,
      ConflictsWith = [], RequiredWith = [], ExactlyOneOf = [],
      DiffSuppressFunc = None, ValidateFunc = None, ValidateDiagFunc = None\<rparr>"

datatype Schema = Schema (attrs: SchemaAttrs) (Elem: Elem)
  and Elem = NoElem | ElemSchema Schema | ElemResource "(string \<times> Schema) list"

section \<open>Validators of the framework's validation package\<close>

text \<open>
  The framework's validation package is not among the sources; the two validators the
  schema uses are modelled after their documented behaviour. Their messages use the
  verbs \<open>%d\<close> of an integer and \<open>%v\<close> of a string slice.
\<close>

function fmt_nat :: "nat \<Rightarrow> string" where
  "fmt_nat n =
     (if n < 10 then [char_of (48 + n)]
      else fmt_nat (n div 10) @ [char_of (48 + n mod 10)])"
  by pat_completeness auto
termination
  by (relation "measure id") auto

definition fmt_d :: "int \<Rightarrow> string" where
  "fmt_d i = (if i < 0 then ''-'' @ fmt_nat (nat (- i)) else fmt_nat (nat i))"

fun joinSpace :: "string list \<Rightarrow> string" where
  "joinSpace [] = []"
| "joinSpace [x] = x"
| "joinSpace (x # y # ys) = x @ '' '' @ joinSpace (y # ys)"

definition fmt_v :: "string list \<Rightarrow> string" where
  "fmt_v xs = ''['' @ joinSpace xs @ '']''"

text \<open>
  \<open>validation.IntAtLeast minv\<close> accepts an integer that is at least \<open>minv\<close>.
\<close>

definition IntAtLeast :: "int \<Rightarrow> iface \<Rightarrow> string \<Rightarrow> panic + string list \<times> error list" where
  "IntAtLeast minv i k =
     (case i of
        VInt v \<Rightarrow>
          if v < minv
          then Inr ([], [''expected '' @ k @ '' to be at least ('' @ fmt_d minv @ ''), got '' @ fmt_d v])
          else Inr ([], [])
      | _ \<Rightarrow> Inr ([], [''expected type of '' @ k @ '' to be integer'']))"

text \<open>
  \<open>validation.StringInSlice valid ignoreCase\<close> accepts a string that equals an element
  of \<open>valid\<close>. The source passes \<open>false\<close> for \<open>ignoreCase\<close>; the case-folding
  comparison of the other variant is not modelled.
\<close>

fun stringInSliceRange :: "string \<Rightarrow> string list \<Rightarrow> bool" where
  "stringInSliceRange v [] = False"
| "stringInSliceRange v (str # rest) = (if v = str then True else stringInSliceRange v rest)"

fun StringInSlice :: "string list \<Rightarrow> bool \<Rightarrow> iface \<Rightarrow> string \<Rightarrow> panic + string list \<times> error list" where
  "StringInSlice valid False i k =
     (case i of
        VString v \<Rightarrow>
          if stringInSliceRange v valid then Inr ([], [])
          else Inr ([], [''expected '' @ k @ '' to be one of '' @ fmt_v valid @ '', got '' @ v])
      | _ \<Rightarrow> Inr ([], [''expected type of '' @ k @ '' to be string'']))"

section \<open>The duration validator\<close>

text \<open>
  \<open>time.ParseDuration\<close> belongs to the Go standard library and computes with floating
  point; it is a parameter of the validator: a function from the text to either the
  parse error's message or the duration in nanoseconds.
\<close>

type_synonym ParseDuration = "string \<Rightarrow> error + int"

definition isNonEmptyDurationString :: "ParseDuration \<Rightarrow> iface \<Rightarrow> cty_Path \<Rightarrow> Diagnostic list" where
  "isNonEmptyDurationString time_ParseDuration v p =
     (case v of
        VString vv \<Rightarrow>
          (case time_ParseDuration vv of
             Inl err \<Rightarrow>
               [\<lparr>Severity = Error,
                 Summary = ''could not parse '' @ [CHR 0x27] @ vv @ [CHR 0x27] @ '': '' @ err,
                 Detail = [],
                 AttributePath = p\<rparr>]
           | Inr _ \<Rightarrow> [])
      | _ \<Rightarrow>
          [\<lparr>Severity = Error,
            Summary = ''Should be a duration string'',
            Detail = [],
            AttributePath = p\<rparr>])"

text \<open>
  The \<open>ValidateFunc\<close> closure shared by the label and tag maps: it asserts that the value
  is a map and collects the error of every forbidden key.
\<close>

fun validateKeysRange :: "(string \<times> iface) list \<Rightarrow> error list" where
  "validateKeysRange [] = []"
| "validateKeysRange ((key, _) # rest) =
     (case matakubeResourceNodeDeploymentValidateLabelOrTag key of
        Some err \<Rightarrow> err # validateKeysRange rest
      | None \<Rightarrow> validateKeysRange rest)"

definition labelOrTagValidateFunc :: "iface \<Rightarrow> string \<Rightarrow> panic + string list \<times> error list" where
  "labelOrTagValidateFunc v k =
     (case v of
        VMap l \<Rightarrow> Inr ([], validateKeysRange l)
      | _ \<Rightarrow> Inl InterfaceConversion)"

section \<open>The schema assembly functions\<close>

text \<open>
  A \<open>map[string]*schema.Schema\<close> literal is an association list of field name and
  descriptor, in the order of the source.
\<close>

definition matakubeResourceNodeDeploymentAWSSchema :: "(string \<times> Schema) list" where
  "matakubeResourceNodeDeploymentAWSSchema =
     [(''instance_type'',
        Schema (zeroSchema\<lparr>Type := TypeString, Required := True,
          Description := ''EC2 instance type''\<rparr>) NoElem),
      (''disk_size'',
        Schema (zeroSchema\<lparr>Type := TypeInt, Required := True,
          Description := ''Size of the volume in GBs. Only one volume will be created''\<rparr>) NoElem),
      (''volume_type'',
        Schema (zeroSchema\<lparr>Type := TypeString, Required := True,
          Description := ''EBS volume type''\<rparr>) NoElem),
      (''availability_zone'',
        Schema (zeroSchema\<lparr>Type := TypeString, Required := True,
          Description := ''Availability zone in which to place the node. It is coupled with the subnet to which the node will belong''\<rparr>) NoElem),
      (''subnet_id'',
        Schema (zeroSchema\<lparr>Type := TypeString, Required := True,
          Description := ''The VPC subnet to which the node shall be connected''\<rparr>) NoElem),
      (''assign_public_ip'',
        Schema (zeroSchema\<lparr>Type := TypeBool, Optional := True, Default := Some (VBool True),
          Description := ''Flag which controls a property of the AWS instance. When set the AWS instance will get a public IP address '' @
            ''assigned during launch overriding a possible setting in the used AWS subnet.''\<rparr>) NoElem),
      (''ami'',
        Schema (zeroSchema\<lparr>Type := TypeString, Optional := True,
          Description := ''Amazon Machine Image to use. Will be defaulted to an AMI of your selected operating system and region''\<rparr>) NoElem),
      (''tags'',
        Schema (zeroSchema\<lparr>Type := TypeMap, Optional := True, Computed := True,
          Description := ''Additional instance tags'',
          DiffSuppressFunc := Some (\<lambda>k old new d.
            Inr (matakubeResourceNodeDeploymentLabelOrTagReserved k)),
          ValidateFunc := Some labelOrTagValidateFunc\<rparr>)
          (ElemSchema (Schema (zeroSchema\<lparr>Type := TypeString\<rparr>) NoElem)))]"

definition matakubeResourceNodeDeploymentCloudOpenstackSchema ::
  "ParseDuration \<Rightarrow> (string \<times> Schema) list" where
  "matakubeResourceNodeDeploymentCloudOpenstackSchema time_ParseDuration =
     [(''flavor'',
        Schema (zeroSchema\<lparr>Type := TypeString, Required := True,
          Description := ''Instance type''\<rparr>) NoElem),
      (''image'',
        Schema (zeroSchema\<lparr>Type := TypeString, Required := True,
          Description := ''Image to use''\<rparr>) NoElem),
      (''disk_size'',
        Schema (zeroSchema\<lparr>Type := TypeInt, Optional := True,
          ValidateFunc := Some (IntAtLeast 1),
          Description := ''If set, the rootDisk will be a volume. If not, the rootDisk will be on ephemeral storage and its size will be derived from the flavor''\<rparr>) NoElem),
      (''tags'',
        Schema (zeroSchema\<lparr>Type := TypeMap, Optional := True, Computed := True,
          Description := ''Additional instance tags'',
          DiffSuppressFunc := Some (\<lambda>k old new d.
            Inr (matakubeResourceNodeDeploymentLabelOrTagReserved k)),
          ValidateFunc := Some labelOrTagValidateFunc\<rparr>)
          (ElemSchema (Schema (zeroSchema\<lparr>Type := TypeString\<rparr>) NoElem))),
      (''use_floating_ip'',
        Schema (zeroSchema\<lparr>Type := TypeBool, Optional := True, Default := Some (VBool True),
          Description := ''Indicate use of floating ip in case of floating_ip_pool presense''\<rparr>) NoElem),
      (''instance_ready_check_period'',
        Schema (zeroSchema\<lparr>Type := TypeString, Optional := True, Default := Some (VString ''5s''),
          Description := ''Specifies how often should the controller check if instance is ready before timing out'',
          ValidateDiagFunc := Some (isNonEmptyDurationString time_ParseDuration)\<rparr>) NoElem),
      (''instance_ready_check_timeout'',
        Schema (zeroSchema\<lparr>Type := TypeString, Optional := True, Default := Some (VString ''120s''),
          Description := ''Specifies how long should the controller check if instance is ready before timing out'',
          ValidateDiagFunc := Some (isNonEmptyDurationString time_ParseDuration)\<rparr>) NoElem)]"

definition metakubeResourceNodeDeploymentAzureSchema :: Schema where
  "metakubeResourceNodeDeploymentAzureSchema =
     Schema (zeroSchema\<lparr>Type := TypeList, Optional := True, MaxItems := 1,
       Description := ''Azure node deployment specification''\<rparr>)
       (ElemResource
         [(''image_id'',
            Schema (zeroSchema\<lparr>Type := TypeString, Optional := True,
              Description := ''Node image id''\<rparr>) NoElem),
          (''size'',
            Schema (zeroSchema\<lparr>Type := TypeString, Required := True,
              Description := ''VM size''\<rparr>) NoElem),
          (''assign_public_ip'',
            Schema (zeroSchema\<lparr>Type := TypeBool, Optional := True, Default := Some (VBool False),
              Description := ''whether to have public facing IP or not''\<rparr>) NoElem),
          (''disk_size_gb'',
            Schema (zeroSchema\<lparr>Type := TypeInt, Optional := True, Default := Some (VInt 0),
              ForceNew := True,
              Description := ''Data disk size in GB''\<rparr>) NoElem),
          (''os_disk_size_gb'',
            Schema (zeroSchema\<lparr>Type := TypeInt, Optional := True, Default := Some (VInt 0),
              ForceNew := True,
              Description := ''OS disk size in GB''\<rparr>) NoElem),
          (''tags'',
            Schema (zeroSchema\<lparr>Type := TypeMap, Optional := True, Computed := True,
              Description := ''Additional metadata to set'',
              DiffSuppressFunc := Some (\<lambda>k old new d.
                Inr (matakubeResourceNodeDeploymentLabelOrTagReserved k)),
              ValidateFunc := Some labelOrTagValidateFunc\<rparr>)
              (ElemSchema (Schema (zeroSchema\<lparr>Type := TypeString\<rparr>) NoElem))),
          (''zones'',
            Schema (zeroSchema\<lparr>Type := TypeList, Optional := True, Computed := True,
              Description := ''Represents the availablity zones for azure vms''\<rparr>)
              (ElemSchema (Schema (zeroSchema\<lparr>Type := TypeString\<rparr>) NoElem)))])"

text \<open>
  The \<open>DiffSuppressFunc\<close> closure of \<open>replicas\<close>. Go evaluates \<open>&&\<close> from the left and
  stops at the first false operand, so a type assertion is reached only when everything
  to its left holds.
\<close>

definition replicasDiffSuppressFunc ::
  "string \<Rightarrow> string \<Rightarrow> string \<Rightarrow> ResourceData \<Rightarrow> panic + bool" where
  "replicasDiffSuppressFunc k old n d =
     (let (minv, ok1) = GetOkConfigured d ''spec.0.min_replicas'';
          (maxv, ok2) = GetOkConfigured d ''spec.0.max_replicas''
      in if \<not> ok1 then Inr False
         else (case minv of
            VInt mi \<Rightarrow>
              (if \<not> (0 < mi) then Inr False
               else if \<not> ok2 then Inr False
               else (case maxv of
                  VInt ma \<Rightarrow> Inr (0 < ma)
                | _ \<Rightarrow> Inl InterfaceConversion))
          | _ \<Rightarrow> Inl InterfaceConversion))"

definition matakubeResourceNodeDeploymentSpecFields ::
  "ParseDuration \<Rightarrow> (string \<times> Schema) list" where
  "matakubeResourceNodeDeploymentSpecFields time_ParseDuration =
     [(''dynamic_config'',
        Schema (zeroSchema\<lparr>Type := TypeBool, Optional := True, Default := Some (VBool False),
          Description := ''Enable metakube kubelete dynamic config''\<rparr>) NoElem),
      (''replicas'',
        Schema (zeroSchema\<lparr>Type := TypeInt, Optional := True, Default := Some (VInt 3),
          Description := ''Number of replicas'',
          ConflictsWith := [''spec.0.min_replicas'', ''spec.0.max_replicas''],
          DiffSuppressFunc := Some replicasDiffSuppressFunc\<rparr>) NoElem),
      (''min_replicas'',
        Schema (zeroSchema\<lparr>Type := TypeInt, Optional := True,
          ValidateFunc := Some (IntAtLeast 1),
          Description := ''Minimum number of replicas to downscale'',
          RequiredWith := [''spec.0.max_replicas'']\<rparr>) NoElem),
      (''max_replicas'',
        Schema (zeroSchema\<lparr>Type := TypeInt, Optional := True,
          ValidateFunc := Some (IntAtLeast 1),
          Description := ''Maximum number of replicas to scale up'',
          RequiredWith := [''spec.0.min_replicas'']\<rparr>) NoElem),
      (''template'',
        Schema (zeroSchema\<lparr>Type := TypeList, MaxItems := 1, Required := True,
          Description := ''Template specification''\<rparr>)
          (ElemResource
            [(''cloud'',
               Schema (zeroSchema\<lparr>Type := TypeList, MaxItems := 1, Required := True,
                 Description := ''Cloud specification''\<rparr>)
                 (ElemResource
                   [(''bringyourown'',
                      Schema (zeroSchema\<lparr>Optional := True, Type := TypeMap,
                        Description := ''Bring your own infrastructure''\<rparr>)
                        (ElemSchema (Schema (zeroSchema\<lparr>Type := TypeString\<rparr>) NoElem))),
                    (''aws'',
                      Schema (zeroSchema\<lparr>Type := TypeList, Optional := True, MaxItems := 1,
                        Description := ''AWS node deployment specification''\<rparr>)
                        (ElemResource matakubeResourceNodeDeploymentAWSSchema)),
                    (''openstack'',
                      Schema (zeroSchema\<lparr>Type := TypeList, Optional := True, MaxItems := 1,
                        Description := ''OpenStack node deployment specification''\<rparr>)
                        (ElemResource
                          (matakubeResourceNodeDeploymentCloudOpenstackSchema time_ParseDuration))),
                    (''azure'', metakubeResourceNodeDeploymentAzureSchema)])),
             (''operating_system'',
               Schema (zeroSchema\<lparr>Type := TypeList, Required := True, MinItems := 1,
                 MaxItems := 1, Description := ''Operating system''\<rparr>)
                 (ElemResource
                   [(''ubuntu'',
                      Schema (zeroSchema\<lparr>Type := TypeList, Optional := True, MinItems := 1,
                        MaxItems := 1,
                        ExactlyOneOf := [''spec.0.template.0.operating_system.0.ubuntu'',
                                         ''spec.0.template.0.operating_system.0.flatcar''],
                        Description := ''Ubuntu operating system''\<rparr>)
                        (ElemResource
                          [(''dist_upgrade_on_boot'',
                             Schema (zeroSchema\<lparr>Type := TypeBool, Optional := True,
                               Default := Some (VBool False),
                               Description := ''Upgrade operating system on boot''\<rparr>) NoElem)])),
                    (''flatcar'',
                      Schema (zeroSchema\<lparr>Type := TypeList, Optional := True, MinItems := 1,
                        MaxItems := 1,
                        ExactlyOneOf := [''spec.0.template.0.operating_system.0.ubuntu'',
                                         ''spec.0.template.0.operating_system.0.flatcar''],
                        Description := ''Flatcar operating system''\<rparr>)
                        (ElemResource
                          [(''disable_auto_update'',
                             Schema (zeroSchema\<lparr>Type := TypeBool, Optional := True,
                               Default := Some (VBool False),
                               Description := ''Disable flatcar auto update feature''\<rparr>) NoElem)]))])),
             (''versions'',
               Schema (zeroSchema\<lparr>Type := TypeList, Optional := True, Computed := True,
                 MaxItems := 1, Description := ''Cloud components versions''\<rparr>)
                 (ElemResource
                   [(''kubelet'',
                      Schema (zeroSchema\<lparr>Type := TypeString, Optional := True, Computed := True,
                        Description := ''Kubelet version''\<rparr>) NoElem)])),
             (''labels'',
               Schema (zeroSchema\<lparr>Type := TypeMap, Optional := True, Computed := True,
                 Description := ''Map of string keys and values that can be used to organize and categorize (scope and select) objects. '' @
                   ''It will be applied to Nodes allowing users run their apps on specific Node using labelSelector.'',
                 DiffSuppressFunc := Some (\<lambda>k old new d.
                   Inr (matakubeResourceNodeDeploymentLabelOrTagReserved k)),
                 ValidateFunc := Some labelOrTagValidateFunc\<rparr>)
                 (ElemSchema (Schema (zeroSchema\<lparr>Type := TypeString\<rparr>) NoElem))),
             (''taints'',
               Schema (zeroSchema\<lparr>Type := TypeList, Optional := True,
                 Description := ''List of taints to set on new nodes''\<rparr>)
                 (ElemResource
                   [(''effect'',
                      Schema (zeroSchema\<lparr>Type := TypeString, Required := True,
                        Description := ''Taint effect'',
                        ValidateFunc := Some (StringInSlice
                          [''NoSchedule'', ''PreferNoSchedule'', ''NoExecute''] False)\<rparr>) NoElem),
                    (''key'',
                      Schema (zeroSchema\<lparr>Type := TypeString, Required := True,
                        Description := ''Taint key''\<rparr>) NoElem),
                    (''value'',
                      Schema (zeroSchema\<lparr>Type := TypeString, Required := True,
                        Description := ''Taint value''\<rparr>) NoElem)]))]))]"

text \<open>
  Reading a descriptor out of the nested table: \<open>fieldAt fields path\<close> follows the field
  names of \<open>path\<close> through the nested resources.
\<close>

definition resourceFields :: "Schema \<Rightarrow> (string \<times> Schema) list" where
  "resourceFields s = (case Elem s of ElemResource m \<Rightarrow> m | _ \<Rightarrow> [])"

fun fieldAt :: "(string \<times> Schema) list \<Rightarrow> string list \<Rightarrow> Schema option" where
  "fieldAt m [] = None"
| "fieldAt m [name] = map_of m name"
| "fieldAt m (name # rest) =
     (case map_of m name of
        None \<Rightarrow> None
      | Some s \<Rightarrow> fieldAt (resourceFields s) rest)"

definition fieldAttrs :: "(string \<times> Schema) list \<Rightarrow> string list \<Rightarrow> SchemaAttrs option" where
  "fieldAttrs m path = map_option attrs (fieldAt m path)"

section \<open>Evaluation of the declared constraints by the host framework\<close>

text \<open>
  The host framework that evaluates \<open>ConflictsWith\<close>, \<open>RequiredWith\<close> and
  \<open>ExactlyOneOf\<close> is not among the sources; the spec says what it rejects. A
  configuration is the association list of the configured keys and their values, all of
  them known.
\<close>

type_synonym ResourceConfig = "(string \<times> iface) list"

datatype ConstraintError =
    ConflictsWithKey string string
  | AllOfMustBeSpecified string "string list"
  | OneOfMustBeSpecified string "string list"
  | OnlyOneOfCanBeSpecified string "string list" "string list"

text \<open>
  Modelled from the spec: the framework's check of \<open>ConflictsWith\<close> is missing from the
  sources. A field is rejected when a key it conflicts with is configured (the check is
  made for a configured field, see \<open>validateConstraints\<close>).
\<close>

definition validateConflictingAttributes ::
  "string \<Rightarrow> SchemaAttrs \<Rightarrow> ResourceConfig \<Rightarrow> ConstraintError option" where
  "validateConflictingAttributes k schema c =
     (case filter (\<lambda>key. map_of c key \<noteq> None) (ConflictsWith schema) of
        [] \<Rightarrow> None
      | conflictingKey # _ \<Rightarrow> Some (ConflictsWithKey k conflictingKey))"

text \<open>
  Modelled from the spec: the framework's check of \<open>RequiredWith\<close> is missing from the
  sources. A field that declares it is rejected unless every listed key, and the field's
  own key, is configured.
\<close>

definition validateRequiredWithAttribute ::
  "string \<Rightarrow> SchemaAttrs \<Rightarrow> ResourceConfig \<Rightarrow> ConstraintError option" where
  "validateRequiredWithAttribute k schema c =
     (if RequiredWith schema = [] then None
      else let allKeys = remdups (RequiredWith schema @ [k])
           in if filter (\<lambda>key. map_of c key = None) allKeys \<noteq> []
              then Some (AllOfMustBeSpecified k allKeys)
              else None)"

text \<open>
  Modelled from the spec: the framework's check of \<open>ExactlyOneOf\<close> is missing from the
  sources. A field that declares it is rejected unless exactly one of the listed keys,
  the field's own key among them, is configured.
\<close>

definition validateExactlyOneAttribute ::
  "string \<Rightarrow> SchemaAttrs \<Rightarrow> ResourceConfig \<Rightarrow> ConstraintError option" where
  "validateExactlyOneAttribute k schema c =
     (if ExactlyOneOf schema = [] then None
      else let allKeys = remdups (ExactlyOneOf schema @ [k]);
               specified = filter (\<lambda>key. map_of c key \<noteq> None) allKeys
           in if length specified = 0 then Some (OneOfMustBeSpecified k allKeys)
              else if 1 < length specified then Some (OnlyOneOfCanBeSpecified k allKeys specified)
              else None)"

text \<open>
  Modelled from the spec: the framework's validation of one field is missing from the
  sources. The exactly-one-of check runs whether or not the field is configured (so that
  configuring none of the keys is rejected); the other two run for a configured field.
\<close>

definition validateConstraints ::
  "string \<Rightarrow> SchemaAttrs \<Rightarrow> ResourceConfig \<Rightarrow> ConstraintError option" where
  "validateConstraints k schema c =
     (case validateExactlyOneAttribute k schema c of
        Some err \<Rightarrow> Some err
      | None \<Rightarrow>
          if map_of c k = None then None
          else (case validateRequiredWithAttribute k schema c of
             Some err \<Rightarrow> Some err
           | None \<Rightarrow> validateConflictingAttributes k schema c))"

section \<open>The reserved predicate and the forbidden-prefix validator\<close>

lemma strings_Contains_sublist: "strings_Contains s substr \<longleftrightarrow> sublist substr s"
  by (induction s) (auto simp: sublist_Cons_right)

lemma reservedRange_iff:
  "reservedRange path subs \<longleftrightarrow> (\<exists>substr \<in> set subs. strings_Contains path substr)"
  by (induction subs) auto

text \<open>
  Claim C2. For every key, the reserved predicate returns true exactly when the key
  contains at least one of the seven reserved substrings, and false when it contains
  none of them.
\<close>

theorem reserved_iff_contains:
  "matakubeResourceNodeDeploymentLabelOrTagReserved path \<longleftrightarrow>
     (\<exists>substr \<in> {''metakube-cluster'', ''system-project'', ''system-cluster'', ''system/cluster'',
      ''system/project'', ''kubernetes.io'', ''syseleven.de''}. \<exists>pre post. path = pre @ substr @ post)"
  unfolding matakubeResourceNodeDeploymentLabelOrTagReserved_def reservedRange_iff
    strings_Contains_sublist sublist_def reservedSubstrings_def
  by simp

theorem reserved_iff_contains_witness:
  "(\<exists>substr \<in> {''metakube-cluster'', ''system-project'', ''system-cluster'', ''system/cluster'',
      ''system/project'', ''kubernetes.io'', ''syseleven.de''}.
       \<exists>pre post. ''node-role.kubernetes.io/worker'' = pre @ substr @ post) \<and>
   \<not> (\<exists>substr \<in> {''metakube-cluster'', ''system-project'', ''system-cluster'', ''system/cluster'',
      ''system/project'', ''kubernetes.io'', ''syseleven.de''}.
       \<exists>pre post. ''environment'' = pre @ substr @ post)"
proof -
  have yes: "matakubeResourceNodeDeploymentLabelOrTagReserved ''node-role.kubernetes.io/worker''"
    by (simp add: matakubeResourceNodeDeploymentLabelOrTagReserved_def reservedSubstrings_def)
  have no: "\<not> matakubeResourceNodeDeploymentLabelOrTagReserved ''environment''"
    by (simp add: matakubeResourceNodeDeploymentLabelOrTagReserved_def reservedSubstrings_def)
  have A: "\<exists>substr \<in> {''metakube-cluster'', ''system-project'', ''system-cluster'', ''system/cluster'',
      ''system/project'', ''kubernetes.io'', ''syseleven.de''}.
       \<exists>pre post. ''node-role.kubernetes.io/worker'' = pre @ substr @ post"
    by (rule iffD1 [OF reserved_iff_contains yes])
  have B: "\<not> (\<exists>substr \<in> {''metakube-cluster'', ''system-project'', ''system-cluster'', ''system/cluster'',
      ''system/project'', ''kubernetes.io'', ''syseleven.de''}.
       \<exists>pre post. ''environment'' = pre @ substr @ post)"
    using no unfolding reserved_iff_contains .
  show ?thesis by (rule conjI [OF A B])
qed

lemma MatchString_anchored:
  "MatchString (Concat BeginText r) s \<longleftrightarrow> regexp_step r ([], s) \<noteq> []"
proof
  assume "MatchString (Concat BeginText r) s"
  then obtain i where i: "regexp_step (Concat BeginText r) (take i s, drop i s) \<noteq> []"
    unfolding MatchString_def list_ex_iff by blast
  hence "take i s = []" by (auto split: if_splits)
  with i show "regexp_step r ([], s) \<noteq> []" by (auto split: if_splits)
next
  assume "regexp_step r ([], s) \<noteq> []"
  hence "regexp_step (Concat BeginText r) (take 0 s, drop 0 s) \<noteq> []" by simp
  moreover have "0 \<in> set [0 ..< Suc (length s)]" by simp
  ultimately show "MatchString (Concat BeginText r) s"
    unfolding MatchString_def list_ex_iff by blast
qed

lemma literal_then_class:
  "concat (map (regexp_step (CharClass cs)) (regexp_step (Literal l) (b, s))) \<noteq> [] \<longleftrightarrow>
     (\<exists>c \<in> set cs. prefix (l @ [c]) s)"
  by (auto simp: prefix_def split: list.splits)

lemma alternate_then_class:
  "concat (map (regexp_step r) (regexp_step (Alternate r1 r2) st)) \<noteq> [] \<longleftrightarrow>
     concat (map (regexp_step r) (regexp_step r1 st)) \<noteq> [] \<or>
     concat (map (regexp_step r) (regexp_step r2 st)) \<noteq> []"
  by simp

lemma forbidden_match_iff:
  "MatchString forbiddenPrefixRegexp key \<longleftrightarrow>
     (\<exists>p \<in> {''syseleven.de'', ''metakube'', ''system'', ''kubernetes.io''}.
        \<exists>c \<in> {CHR ''/'', CHR ''-''}. prefix (p @ [c]) key)"
proof -
  have "MatchString forbiddenPrefixRegexp key \<longleftrightarrow>
      (\<exists>c \<in> set ''/-''. prefix (''syseleven.de'' @ [c]) key) \<or>
      (\<exists>c \<in> set ''/-''. prefix (''metakube'' @ [c]) key) \<or>
      (\<exists>c \<in> set ''/-''. prefix (''system'' @ [c]) key) \<or>
      (\<exists>c \<in> set ''/-''. prefix (''kubernetes.io'' @ [c]) key)"
    unfolding forbiddenPrefixRegexp_def MatchString_anchored regexp_step.simps(4)
      alternate_then_class literal_then_class ..
  also have "\<dots> \<longleftrightarrow> (\<exists>p \<in> {''syseleven.de'', ''metakube'', ''system'', ''kubernetes.io''}.
        \<exists>c \<in> {CHR ''/'', CHR ''-''}. prefix (p @ [c]) key)"
    by (simp only: bex_simps(5) bex_triv_one_point1 bex_triv_one_point2 list.set insert_iff empty_iff) blast
  finally show ?thesis .
qed

text \<open>
  Claim C3. For every key, the validator returns an error exactly when the key matches
  the forbidden-prefix expression, that is, when it starts with \<open>syseleven.de\<close>,
  \<open>metakube\<close>, \<open>system\<close> or \<open>kubernetes.io\<close> followed by \<open>/\<close> or \<open>-\<close>; the
  error's message contains the key; for every other key the result is nil.
\<close>

theorem validate_label_or_tag_forbidden_prefix:
  "(matakubeResourceNodeDeploymentValidateLabelOrTag key \<noteq> None \<longleftrightarrow>
      MatchString forbiddenPrefixRegexp key) \<and>
   (MatchString forbiddenPrefixRegexp key \<longleftrightarrow>
      (\<exists>p \<in> {''syseleven.de'', ''metakube'', ''system'', ''kubernetes.io''}.
         \<exists>c \<in> {CHR ''/'', CHR ''-''}. prefix (p @ [c]) key)) \<and>
   (\<forall>err. matakubeResourceNodeDeploymentValidateLabelOrTag key = Some err \<longrightarrow>
      err = ''forbidden tag or label prefix '' @ key \<and> sublist key err)"
proof (intro conjI)
  show "matakubeResourceNodeDeploymentValidateLabelOrTag key \<noteq> None \<longleftrightarrow>
      MatchString forbiddenPrefixRegexp key"
    by (simp add: matakubeResourceNodeDeploymentValidateLabelOrTag_def)
  show "MatchString forbiddenPrefixRegexp key \<longleftrightarrow>
      (\<exists>p \<in> {''syseleven.de'', ''metakube'', ''system'', ''kubernetes.io''}.
         \<exists>c \<in> {CHR ''/'', CHR ''-''}. prefix (p @ [c]) key)"
    by (rule forbidden_match_iff)
  show "\<forall>err. matakubeResourceNodeDeploymentValidateLabelOrTag key = Some err \<longrightarrow>
      err = ''forbidden tag or label prefix '' @ key \<and> sublist key err"
    by (auto simp: matakubeResourceNodeDeploymentValidateLabelOrTag_def sublist_append
        simp del: append.simps split: if_splits)
qed

theorem validate_label_or_tag_forbidden_prefix_witness:
  "matakubeResourceNodeDeploymentValidateLabelOrTag ''kubernetes.io/foo'' =
     Some ''forbidden tag or label prefix kubernetes.io/foo'' \<and>
   sublist ''kubernetes.io/foo'' ''forbidden tag or label prefix kubernetes.io/foo'' \<and>
   \<not> (\<exists>p \<in> {''syseleven.de'', ''metakube'', ''system'', ''kubernetes.io''}.
         \<exists>c \<in> {CHR ''/'', CHR ''-''}. prefix (p @ [c]) ''my-system-x'')"
proof -
  have e: "matakubeResourceNodeDeploymentValidateLabelOrTag ''kubernetes.io/foo'' =
      Some ''forbidden tag or label prefix kubernetes.io/foo''"
    by (simp add: matakubeResourceNodeDeploymentValidateLabelOrTag_def MatchString_def
        forbiddenPrefixRegexp_def)
  have n: "\<not> (matakubeResourceNodeDeploymentValidateLabelOrTag ''my-system-x'' \<noteq> None)"
    by (simp add: matakubeResourceNodeDeploymentValidateLabelOrTag_def MatchString_def
        forbiddenPrefixRegexp_def)
  note t1 = validate_label_or_tag_forbidden_prefix [of "''kubernetes.io/foo''"]
  note t2 = validate_label_or_tag_forbidden_prefix [of "''my-system-x''"]
  from t1 e have s: "sublist ''kubernetes.io/foo'' ''forbidden tag or label prefix kubernetes.io/foo''"
    by (elim conjE allE [of _ "''forbidden tag or label prefix kubernetes.io/foo''"]) (erule impE, assumption, erule conjE, assumption)
  from n have m: "\<not> (\<exists>p \<in> {''syseleven.de'', ''metakube'', ''system'', ''kubernetes.io''}.
         \<exists>c \<in> {CHR ''/'', CHR ''-''}. prefix (p @ [c]) ''my-system-x'')"
    unfolding t2 [THEN conjunct1] t2 [THEN conjunct2, THEN conjunct1] .
  show ?thesis by (intro conjI e s m)
qed

section \<open>The duration validator on every input\<close>

lemma duration_string_ok:
  "time_ParseDuration vv = Inr d \<Longrightarrow>
     isNonEmptyDurationString time_ParseDuration (VString vv) p = []"
  by (simp add: isNonEmptyDurationString_def)

lemma duration_string_unparseable:
  "time_ParseDuration vv = Inl err \<Longrightarrow>
     isNonEmptyDurationString time_ParseDuration (VString vv) p =
       [\<lparr>Severity = Error,
         Summary = ''could not parse '' @ [CHR 0x27] @ vv @ [CHR 0x27] @ '': '' @ err,
         Detail = [], AttributePath = p\<rparr>]"
  by (simp add: isNonEmptyDurationString_def)

lemma duration_not_a_string:
  "(\<forall>vv. v \<noteq> VString vv) \<Longrightarrow>
     isNonEmptyDurationString time_ParseDuration v p =
       [\<lparr>Severity = Error, Summary = ''Should be a duration string'',
         Detail = [], AttributePath = p\<rparr>]"
  by (cases v) (simp_all add: isNonEmptyDurationString_def)

lemma sublist_in_summary:
  "sublist vv (''could not parse '' @ [CHR 0x27] @ vv @ [CHR 0x27] @ '': '' @ err)"
proof -
  have "''could not parse '' @ [CHR 0x27] @ vv @ [CHR 0x27] @ '': '' @ err =
      (''could not parse '' @ [CHR 0x27]) @ vv @ ([CHR 0x27] @ '': '' @ err)"
    by simp
  thus ?thesis by (simp only: sublist_appendI)
qed

text \<open>
  Claim C4. For every input value and every duration parser: a string that the parser
  accepts yields no diagnostics; a string that the parser rejects yields exactly one
  diagnostic of severity error whose summary contains the original string; a value that
  is not a string yields exactly one diagnostic of severity error.
\<close>

theorem duration_validator_diagnostics:
  "(\<forall>vv d. time_ParseDuration vv = Inr d \<longrightarrow>
      isNonEmptyDurationString time_ParseDuration (VString vv) p = []) \<and>
   (\<forall>vv err. time_ParseDuration vv = Inl err \<longrightarrow>
      (\<exists>dg. isNonEmptyDurationString time_ParseDuration (VString vv) p = [dg] \<and>
         Severity dg = Error \<and> sublist vv (Summary dg) \<and> AttributePath dg = p)) \<and>
   ((\<forall>vv. v \<noteq> VString vv) \<longrightarrow>
      (\<exists>dg. isNonEmptyDurationString time_ParseDuration v p = [dg] \<and>
         Severity dg = Error \<and> Summary dg = ''Should be a duration string'' \<and>
         AttributePath dg = p))"
proof (intro conjI allI impI)
  fix vv d assume "time_ParseDuration vv = Inr d"
  thus "isNonEmptyDurationString time_ParseDuration (VString vv) p = []"
    by (rule duration_string_ok)
next
  fix vv err assume "time_ParseDuration vv = Inl err"
  hence "isNonEmptyDurationString time_ParseDuration (VString vv) p =
       [\<lparr>Severity = Error,
         Summary = ''could not parse '' @ [CHR 0x27] @ vv @ [CHR 0x27] @ '': '' @ err,
         Detail = [], AttributePath = p\<rparr>]"
    by (rule duration_string_unparseable)
  thus "\<exists>dg. isNonEmptyDurationString time_ParseDuration (VString vv) p = [dg] \<and>
         Severity dg = Error \<and> sublist vv (Summary dg) \<and> AttributePath dg = p"
    using sublist_in_summary [of vv err] by simp
next
  assume "\<forall>vv. v \<noteq> VString vv"
  hence "isNonEmptyDurationString time_ParseDuration v p =
       [\<lparr>Severity = Error, Summary = ''Should be a duration string'',
         Detail = [], AttributePath = p\<rparr>]"
    by (rule duration_not_a_string)
  thus "\<exists>dg. isNonEmptyDurationString time_ParseDuration v p = [dg] \<and>
         Severity dg = Error \<and> Summary dg = ''Should be a duration string'' \<and>
         AttributePath dg = p"
    by simp
qed

theorem duration_validator_diagnostics_witness:
  "isNonEmptyDurationString
     (\<lambda>s. if s \<in> {''5s'', ''2m'', ''120s''} then Inr 0 else Inl (''time: invalid duration '' @ s))
     (VString ''120s'') [GetAttrStep ''instance_ready_check_timeout''] = [] \<and>
   (\<exists>dg. isNonEmptyDurationString
     (\<lambda>s. if s \<in> {''5s'', ''2m'', ''120s''} then Inr 0 else Inl (''time: invalid duration '' @ s))
     (VString ''abc'') [GetAttrStep ''instance_ready_check_timeout''] = [dg] \<and>
      Severity dg = Error \<and> sublist ''abc'' (Summary dg)) \<and>
   (\<exists>dg. isNonEmptyDurationString
     (\<lambda>s. if s \<in> {''5s'', ''2m'', ''120s''} then Inr 0 else Inl (''time: invalid duration '' @ s))
     (VInt 5) [GetAttrStep ''instance_ready_check_timeout''] = [dg] \<and>
      Severity dg = Error \<and> Summary dg = ''Should be a duration string'')"
proof -
  let ?P = "\<lambda>s. if s \<in> {''5s'', ''2m'', ''120s''} then Inr (0::int)
                 else Inl (''time: invalid duration '' @ s)"
  let ?p = "[GetAttrStep ''instance_ready_check_timeout'']"
  note t = duration_validator_diagnostics [of ?P ?p "VInt 5"]
  have ok: "?P ''120s'' = Inr 0" by simp
  have bad: "?P ''abc'' = Inl ''time: invalid duration abc''" by simp
  have ns: "\<forall>vv. VInt 5 \<noteq> VString vv" by simp
  from t ok have A: "isNonEmptyDurationString ?P (VString ''120s'') ?p = []"
    by blast
  from t bad have B: "\<exists>dg. isNonEmptyDurationString ?P (VString ''abc'') ?p = [dg] \<and>
      Severity dg = Error \<and> sublist ''abc'' (Summary dg)"
    by blast
  from t ns have C: "\<exists>dg. isNonEmptyDurationString ?P (VInt 5) ?p = [dg] \<and>
      Severity dg = Error \<and> Summary dg = ''Should be a duration string''"
    by blast
  show ?thesis by (intro conjI A B C)
qed

section \<open>The descriptors of the schema\<close>

lemma replicas_attrs:
  "fieldAttrs (matakubeResourceNodeDeploymentSpecFields p) [''replicas''] =
     Some (zeroSchema\<lparr>Type := TypeInt, Optional := True, Default := Some (VInt 3),
          Description := ''Number of replicas'',
          ConflictsWith := [''spec.0.min_replicas'', ''spec.0.max_replicas''],
          DiffSuppressFunc := Some replicasDiffSuppressFunc\<rparr>)"
  by (simp add: fieldAttrs_def matakubeResourceNodeDeploymentSpecFields_def)

lemma min_replicas_attrs:
  "fieldAttrs (matakubeResourceNodeDeploymentSpecFields p) [''min_replicas''] =
     Some (zeroSchema\<lparr>Type := TypeInt, Optional := True,
          ValidateFunc := Some (IntAtLeast 1),
          Description := ''Minimum number of replicas to downscale'',
          RequiredWith := [''spec.0.max_replicas'']\<rparr>)"
  by (simp add: fieldAttrs_def matakubeResourceNodeDeploymentSpecFields_def)

lemma max_replicas_attrs:
  "fieldAttrs (matakubeResourceNodeDeploymentSpecFields p) [''max_replicas''] =
     Some (zeroSchema\<lparr>Type := TypeInt, Optional := True,
          ValidateFunc := Some (IntAtLeast 1),
          Description := ''Maximum number of replicas to scale up'',
          RequiredWith := [''spec.0.min_replicas'']\<rparr>)"
  by (simp add: fieldAttrs_def matakubeResourceNodeDeploymentSpecFields_def)

lemma ubuntu_attrs:
  "fieldAttrs (matakubeResourceNodeDeploymentSpecFields p)
     [''template'', ''operating_system'', ''ubuntu''] =
     Some (zeroSchema\<lparr>Type := TypeList, Optional := True, MinItems := 1, MaxItems := 1,
          ExactlyOneOf := [''spec.0.template.0.operating_system.0.ubuntu'',
                           ''spec.0.template.0.operating_system.0.flatcar''],
          Description := ''Ubuntu operating system''\<rparr>)"
  by (simp add: fieldAttrs_def matakubeResourceNodeDeploymentSpecFields_def resourceFields_def)

lemma flatcar_attrs:
  "fieldAttrs (matakubeResourceNodeDeploymentSpecFields p)
     [''template'', ''operating_system'', ''flatcar''] =
     Some (zeroSchema\<lparr>Type := TypeList, Optional := True, MinItems := 1, MaxItems := 1,
          ExactlyOneOf := [''spec.0.template.0.operating_system.0.ubuntu'',
                           ''spec.0.template.0.operating_system.0.flatcar''],
          Description := ''Flatcar operating system''\<rparr>)"
  by (simp add: fieldAttrs_def matakubeResourceNodeDeploymentSpecFields_def resourceFields_def)

lemma effect_attrs:
  "fieldAttrs (matakubeResourceNodeDeploymentSpecFields p)
     [''template'', ''taints'', ''effect''] =
     Some (zeroSchema\<lparr>Type := TypeString, Required := True,
          Description := ''Taint effect'',
          ValidateFunc := Some (StringInSlice
            [''NoSchedule'', ''PreferNoSchedule'', ''NoExecute''] False)\<rparr>)"
  by (simp add: fieldAttrs_def matakubeResourceNodeDeploymentSpecFields_def resourceFields_def)

lemma bringyourown_attrs:
  "fieldAttrs (matakubeResourceNodeDeploymentSpecFields p)
     [''template'', ''cloud'', ''bringyourown''] =
     Some (zeroSchema\<lparr>Optional := True, Type := TypeMap,
          Description := ''Bring your own infrastructure''\<rparr>)"
  by (simp add: fieldAttrs_def matakubeResourceNodeDeploymentSpecFields_def resourceFields_def)

lemma aws_attrs:
  "fieldAttrs (matakubeResourceNodeDeploymentSpecFields p) [''template'', ''cloud'', ''aws''] =
     Some (zeroSchema\<lparr>Type := TypeList, Optional := True, MaxItems := 1,
          Description := ''AWS node deployment specification''\<rparr>)"
  by (simp add: fieldAttrs_def matakubeResourceNodeDeploymentSpecFields_def resourceFields_def)

lemma openstack_attrs:
  "fieldAttrs (matakubeResourceNodeDeploymentSpecFields p)
     [''template'', ''cloud'', ''openstack''] =
     Some (zeroSchema\<lparr>Type := TypeList, Optional := True, MaxItems := 1,
          Description := ''OpenStack node deployment specification''\<rparr>)"
  by (simp add: fieldAttrs_def matakubeResourceNodeDeploymentSpecFields_def resourceFields_def)

lemma azure_attrs:
  "fieldAttrs (matakubeResourceNodeDeploymentSpecFields p) [''template'', ''cloud'', ''azure''] =
     Some (zeroSchema\<lparr>Type := TypeList, Optional := True, MaxItems := 1,
          Description := ''Azure node deployment specification''\<rparr>)"
  by (simp add: fieldAttrs_def matakubeResourceNodeDeploymentSpecFields_def resourceFields_def
      metakubeResourceNodeDeploymentAzureSchema_def)

lemma labels_diff_suppress:
  "map_option DiffSuppressFunc (fieldAttrs (matakubeResourceNodeDeploymentSpecFields p)
     [''template'', ''labels'']) =
   Some (Some (\<lambda>k old new d. Inr (matakubeResourceNodeDeploymentLabelOrTagReserved k)))"
  by (simp add: fieldAttrs_def matakubeResourceNodeDeploymentSpecFields_def resourceFields_def)

lemma aws_tags_diff_suppress:
  "map_option DiffSuppressFunc (fieldAttrs (matakubeResourceNodeDeploymentSpecFields p)
     [''template'', ''cloud'', ''aws'', ''tags'']) =
   Some (Some (\<lambda>k old new d. Inr (matakubeResourceNodeDeploymentLabelOrTagReserved k)))"
  by (simp add: fieldAttrs_def matakubeResourceNodeDeploymentSpecFields_def resourceFields_def
      matakubeResourceNodeDeploymentAWSSchema_def)

lemma openstack_tags_diff_suppress:
  "map_option DiffSuppressFunc (fieldAttrs (matakubeResourceNodeDeploymentSpecFields p)
     [''template'', ''cloud'', ''openstack'', ''tags'']) =
   Some (Some (\<lambda>k old new d. Inr (matakubeResourceNodeDeploymentLabelOrTagReserved k)))"
  by (simp add: fieldAttrs_def matakubeResourceNodeDeploymentSpecFields_def resourceFields_def
      matakubeResourceNodeDeploymentCloudOpenstackSchema_def)

lemma azure_tags_diff_suppress:
  "map_option DiffSuppressFunc (fieldAttrs (matakubeResourceNodeDeploymentSpecFields p)
     [''template'', ''cloud'', ''azure'', ''tags'']) =
   Some (Some (\<lambda>k old new d. Inr (matakubeResourceNodeDeploymentLabelOrTagReserved k)))"
  by (simp add: fieldAttrs_def matakubeResourceNodeDeploymentSpecFields_def resourceFields_def
      metakubeResourceNodeDeploymentAzureSchema_def)

lemma default_check_period:
  "map_option Default (fieldAttrs (matakubeResourceNodeDeploymentSpecFields p)
     [''template'', ''cloud'', ''openstack'', ''instance_ready_check_period'']) =
   Some (Some (VString ''5s''))"
  by (simp add: fieldAttrs_def matakubeResourceNodeDeploymentSpecFields_def resourceFields_def
      matakubeResourceNodeDeploymentCloudOpenstackSchema_def)

lemma default_check_timeout:
  "map_option Default (fieldAttrs (matakubeResourceNodeDeploymentSpecFields p)
     [''template'', ''cloud'', ''openstack'', ''instance_ready_check_timeout'']) =
   Some (Some (VString ''120s''))"
  by (simp add: fieldAttrs_def matakubeResourceNodeDeploymentSpecFields_def resourceFields_def
      matakubeResourceNodeDeploymentCloudOpenstackSchema_def)

lemma default_replicas:
  "map_option Default (fieldAttrs (matakubeResourceNodeDeploymentSpecFields p) [''replicas'']) =
   Some (Some (VInt 3))"
  by (simp add: replicas_attrs)

lemma default_aws_public_ip:
  "map_option Default (fieldAttrs (matakubeResourceNodeDeploymentSpecFields p)
     [''template'', ''cloud'', ''aws'', ''assign_public_ip'']) =
   Some (Some (VBool True))"
  by (simp add: fieldAttrs_def matakubeResourceNodeDeploymentSpecFields_def resourceFields_def
      matakubeResourceNodeDeploymentAWSSchema_def)

lemma default_azure_public_ip:
  "map_option Default (fieldAttrs (matakubeResourceNodeDeploymentSpecFields p)
     [''template'', ''cloud'', ''azure'', ''assign_public_ip'']) =
   Some (Some (VBool False))"
  by (simp add: fieldAttrs_def matakubeResourceNodeDeploymentSpecFields_def resourceFields_def
      metakubeResourceNodeDeploymentAzureSchema_def)

text \<open>
  Claim C7. The declared defaults: \<open>instance_ready_check_period\<close> of OpenStack is
  \<open>5s\<close>, \<open>instance_ready_check_timeout\<close> of OpenStack is \<open>120s\<close>, \<open>replicas\<close> is 3,
  \<open>assign_public_ip\<close> of AWS is true and \<open>assign_public_ip\<close> of Azure is false.
\<close>

theorem schema_defaults:
  "map_option Default (fieldAttrs (matakubeResourceNodeDeploymentSpecFields p)
     [''template'', ''cloud'', ''openstack'', ''instance_ready_check_period'']) =
     Some (Some (VString ''5s'')) \<and>
   map_option Default (fieldAttrs (matakubeResourceNodeDeploymentSpecFields p)
     [''template'', ''cloud'', ''openstack'', ''instance_ready_check_timeout'']) =
     Some (Some (VString ''120s'')) \<and>
   map_option Default (fieldAttrs (matakubeResourceNodeDeploymentSpecFields p) [''replicas'']) =
     Some (Some (VInt 3)) \<and>
   map_option Default (fieldAttrs (matakubeResourceNodeDeploymentSpecFields p)
     [''template'', ''cloud'', ''aws'', ''assign_public_ip'']) =
     Some (Some (VBool True)) \<and>
   map_option Default (fieldAttrs (matakubeResourceNodeDeploymentSpecFields p)
     [''template'', ''cloud'', ''azure'', ''assign_public_ip'']) =
     Some (Some (VBool False))"
  by (intro conjI default_check_period default_check_timeout default_replicas
      default_aws_public_ip default_azure_public_ip)

text \<open>
  Claim C8. Each of the four label or tag maps (the template's labels and the tags of AWS,
  OpenStack and Azure) carries a diff-suppression function, and on every key, whatever
  the old value, the new value and the resource data, that function returns the value of
  the reserved predicate on the key.
\<close>

theorem diff_suppress_is_reserved_predicate:
  "(\<exists>f. map_option DiffSuppressFunc (fieldAttrs (matakubeResourceNodeDeploymentSpecFields p)
        [''template'', ''labels'']) = Some (Some f) \<and>
      (\<forall>k old new d. f k old new d = Inr (matakubeResourceNodeDeploymentLabelOrTagReserved k))) \<and>
   (\<exists>f. map_option DiffSuppressFunc (fieldAttrs (matakubeResourceNodeDeploymentSpecFields p)
        [''template'', ''cloud'', ''aws'', ''tags'']) = Some (Some f) \<and>
      (\<forall>k old new d. f k old new d = Inr (matakubeResourceNodeDeploymentLabelOrTagReserved k))) \<and>
   (\<exists>f. map_option DiffSuppressFunc (fieldAttrs (matakubeResourceNodeDeploymentSpecFields p)
        [''template'', ''cloud'', ''openstack'', ''tags'']) = Some (Some f) \<and>
      (\<forall>k old new d. f k old new d = Inr (matakubeResourceNodeDeploymentLabelOrTagReserved k))) \<and>
   (\<exists>f. map_option DiffSuppressFunc (fieldAttrs (matakubeResourceNodeDeploymentSpecFields p)
        [''template'', ''cloud'', ''azure'', ''tags'']) = Some (Some f) \<and>
      (\<forall>k old new d. f k old new d = Inr (matakubeResourceNodeDeploymentLabelOrTagReserved k)))"
  unfolding labels_diff_suppress aws_tags_diff_suppress openstack_tags_diff_suppress
    azure_tags_diff_suppress
  by simp

section \<open>Replica count and autoscaling bounds\<close>

lemma conflicts_rejects:
  "map_of c k \<noteq> None \<Longrightarrow> key \<in> set (ConflictsWith a) \<Longrightarrow> map_of c key \<noteq> None \<Longrightarrow>
     validateConstraints k a c \<noteq> None"
  unfolding validateConstraints_def validateConflictingAttributes_def
  by (auto split: list.splits option.splits simp: filter_empty_conv)

lemma conflicts_accepts:
  "ExactlyOneOf a = [] \<Longrightarrow> RequiredWith a = [] \<Longrightarrow>
   \<forall>key \<in> set (ConflictsWith a). map_of c key = None \<Longrightarrow>
     validateConstraints k a c = None"
  unfolding validateConstraints_def validateExactlyOneAttribute_def
    validateRequiredWithAttribute_def validateConflictingAttributes_def
  by (auto split: list.splits simp: filter_empty_conv)

lemma required_rejects:
  "map_of c k \<noteq> None \<Longrightarrow> key \<in> set (RequiredWith a) \<Longrightarrow> map_of c key = None \<Longrightarrow>
     validateConstraints k a c \<noteq> None"
  unfolding validateConstraints_def validateRequiredWithAttribute_def
  by (auto simp: filter_empty_conv Let_def split: option.splits)

lemma required_accepts:
  "ExactlyOneOf a = [] \<Longrightarrow> ConflictsWith a = [] \<Longrightarrow> map_of c k \<noteq> None \<Longrightarrow>
   \<forall>key \<in> set (RequiredWith a). map_of c key \<noteq> None \<Longrightarrow>
     validateConstraints k a c = None"
  unfolding validateConstraints_def validateExactlyOneAttribute_def
    validateRequiredWithAttribute_def validateConflictingAttributes_def
  by (auto simp: filter_empty_conv Let_def)

lemma exactly_one_pair:
  "ExactlyOneOf a = [u, f] \<Longrightarrow> u \<noteq> f \<Longrightarrow> k = u \<or> k = f \<Longrightarrow>
   validateExactlyOneAttribute k a c = None \<longleftrightarrow> ((map_of c u \<noteq> None) \<noteq> (map_of c f \<noteq> None))"
  unfolding validateExactlyOneAttribute_def
  by (auto simp: Let_def)

lemma exactly_one_rejects:
  "validateExactlyOneAttribute k a c \<noteq> None \<Longrightarrow> validateConstraints k a c \<noteq> None"
  unfolding validateConstraints_def by (auto split: option.splits)

lemma unconstrained_accepts:
  "ExactlyOneOf a = [] \<Longrightarrow> ConflictsWith a = [] \<Longrightarrow> RequiredWith a = [] \<Longrightarrow>
     validateConstraints k a c = None"
  unfolding validateConstraints_def validateExactlyOneAttribute_def
    validateRequiredWithAttribute_def validateConflictingAttributes_def
  by simp

text \<open>
  Claim C5. \<open>replicas\<close> declares a conflict with \<open>spec.0.min_replicas\<close> and
  \<open>spec.0.max_replicas\<close>, and \<open>min_replicas\<close> and \<open>max_replicas\<close> each require the
  other. Hence a configuration that sets \<open>replicas\<close> together with one of the bounds is
  rejected, and so is one that sets one bound without the other; a configuration with
  \<open>replicas\<close> and no bound passes the check of \<open>replicas\<close>, and one with both bounds
  passes the checks of the bounds.
\<close>

theorem replicas_conflict_with_bounds:
  "\<exists>r mn mx.
     fieldAttrs (matakubeResourceNodeDeploymentSpecFields p) [''replicas''] = Some r \<and>
     fieldAttrs (matakubeResourceNodeDeploymentSpecFields p) [''min_replicas''] = Some mn \<and>
     fieldAttrs (matakubeResourceNodeDeploymentSpecFields p) [''max_replicas''] = Some mx \<and>
     ConflictsWith r = [''spec.0.min_replicas'', ''spec.0.max_replicas''] \<and>
     RequiredWith mn = [''spec.0.max_replicas''] \<and>
     RequiredWith mx = [''spec.0.min_replicas''] \<and>
     (\<forall>c. map_of c ''spec.0.replicas'' \<noteq> None \<and>
          (map_of c ''spec.0.min_replicas'' \<noteq> None \<or> map_of c ''spec.0.max_replicas'' \<noteq> None) \<longrightarrow>
          validateConstraints ''spec.0.replicas'' r c \<noteq> None) \<and>
     (\<forall>c. map_of c ''spec.0.min_replicas'' \<noteq> None \<and> map_of c ''spec.0.max_replicas'' = None \<longrightarrow>
          validateConstraints ''spec.0.min_replicas'' mn c \<noteq> None) \<and>
     (\<forall>c. map_of c ''spec.0.max_replicas'' \<noteq> None \<and> map_of c ''spec.0.min_replicas'' = None \<longrightarrow>
          validateConstraints ''spec.0.max_replicas'' mx c \<noteq> None) \<and>
     (\<forall>c. map_of c ''spec.0.min_replicas'' = None \<and> map_of c ''spec.0.max_replicas'' = None \<longrightarrow>
          validateConstraints ''spec.0.replicas'' r c = None) \<and>
     (\<forall>c. map_of c ''spec.0.min_replicas'' \<noteq> None \<and> map_of c ''spec.0.max_replicas'' \<noteq> None \<longrightarrow>
          validateConstraints ''spec.0.min_replicas'' mn c = None \<and>
          validateConstraints ''spec.0.max_replicas'' mx c = None)"
proof (intro exI conjI allI impI)
  let ?r = "zeroSchema\<lparr>Type := TypeInt, Optional := True, Default := Some (VInt 3),
          Description := ''Number of replicas'',
          ConflictsWith := [''spec.0.min_replicas'', ''spec.0.max_replicas''],
          DiffSuppressFunc := Some replicasDiffSuppressFunc\<rparr>"
  let ?mn = "zeroSchema\<lparr>Type := TypeInt, Optional := True,
          ValidateFunc := Some (IntAtLeast 1),
          Description := ''Minimum number of replicas to downscale'',
          RequiredWith := [''spec.0.max_replicas'']\<rparr>"
  let ?mx = "zeroSchema\<lparr>Type := TypeInt, Optional := True,
          ValidateFunc := Some (IntAtLeast 1),
          Description := ''Maximum number of replicas to scale up'',
          RequiredWith := [''spec.0.min_replicas'']\<rparr>"
  show "fieldAttrs (matakubeResourceNodeDeploymentSpecFields p) [''replicas''] = Some ?r"
    by (rule replicas_attrs)
  show "fieldAttrs (matakubeResourceNodeDeploymentSpecFields p) [''min_replicas''] = Some ?mn"
    by (rule min_replicas_attrs)
  show "fieldAttrs (matakubeResourceNodeDeploymentSpecFields p) [''max_replicas''] = Some ?mx"
    by (rule max_replicas_attrs)
  show cr: "ConflictsWith ?r = [''spec.0.min_replicas'', ''spec.0.max_replicas'']" by simp
  show rmn: "RequiredWith ?mn = [''spec.0.max_replicas'']" by simp
  show rmx: "RequiredWith ?mx = [''spec.0.min_replicas'']" by simp
  have er: "ExactlyOneOf ?r = []" "RequiredWith ?r = []" by (simp_all add: zeroSchema_def)
  have emn: "ExactlyOneOf ?mn = []" "ConflictsWith ?mn = []" by (simp_all add: zeroSchema_def)
  have emx: "ExactlyOneOf ?mx = []" "ConflictsWith ?mx = []" by (simp_all add: zeroSchema_def)
  { fix c :: ResourceConfig
    assume "map_of c ''spec.0.replicas'' \<noteq> None \<and>
          (map_of c ''spec.0.min_replicas'' \<noteq> None \<or> map_of c ''spec.0.max_replicas'' \<noteq> None)"
    then obtain key where "map_of c ''spec.0.replicas'' \<noteq> None"
        "key \<in> set (ConflictsWith ?r)" "map_of c key \<noteq> None"
      unfolding cr by auto
    thus "validateConstraints ''spec.0.replicas'' ?r c \<noteq> None"
      by (rule conflicts_rejects) }
  { fix c :: ResourceConfig
    assume "map_of c ''spec.0.min_replicas'' \<noteq> None \<and> map_of c ''spec.0.max_replicas'' = None"
    hence "map_of c ''spec.0.min_replicas'' \<noteq> None"
        "''spec.0.max_replicas'' \<in> set (RequiredWith ?mn)" "map_of c ''spec.0.max_replicas'' = None"
      unfolding rmn by simp_all
    thus "validateConstraints ''spec.0.min_replicas'' ?mn c \<noteq> None"
      by (rule required_rejects) }
  { fix c :: ResourceConfig
    assume "map_of c ''spec.0.max_replicas'' \<noteq> None \<and> map_of c ''spec.0.min_replicas'' = None"
    hence "map_of c ''spec.0.max_replicas'' \<noteq> None"
        "''spec.0.min_replicas'' \<in> set (RequiredWith ?mx)" "map_of c ''spec.0.min_replicas'' = None"
      unfolding rmx by simp_all
    thus "validateConstraints ''spec.0.max_replicas'' ?mx c \<noteq> None"
      by (rule required_rejects) }
  { fix c :: ResourceConfig
    assume "map_of c ''spec.0.min_replicas'' = None \<and> map_of c ''spec.0.max_replicas'' = None"
    hence "\<forall>key \<in> set (ConflictsWith ?r). map_of c key = None"
      unfolding cr by simp
    with er show "validateConstraints ''spec.0.replicas'' ?r c = None"
      by (rule conflicts_accepts) }
  { fix c :: ResourceConfig
    assume b: "map_of c ''spec.0.min_replicas'' \<noteq> None \<and> map_of c ''spec.0.max_replicas'' \<noteq> None"
    hence "\<forall>key \<in> set (RequiredWith ?mn). map_of c key \<noteq> None"
      unfolding rmn by simp
    with emn b show "validateConstraints ''spec.0.min_replicas'' ?mn c = None"
      by (intro required_accepts) simp_all
    from b have "\<forall>key \<in> set (RequiredWith ?mx). map_of c key \<noteq> None"
      unfolding rmx by simp
    with emx b show "validateConstraints ''spec.0.max_replicas'' ?mx c = None"
      by (intro required_accepts) simp_all }
qed

theorem replicas_conflict_with_bounds_witness:
  "\<exists>r mn. fieldAttrs (matakubeResourceNodeDeploymentSpecFields Inl) [''replicas''] = Some r \<and>
     fieldAttrs (matakubeResourceNodeDeploymentSpecFields Inl) [''min_replicas''] = Some mn \<and>
     validateConstraints ''spec.0.replicas'' r
       [(''spec.0.replicas'', VInt 2), (''spec.0.min_replicas'', VInt 1),
        (''spec.0.max_replicas'', VInt 4)] \<noteq> None \<and>
     validateConstraints ''spec.0.min_replicas'' mn [(''spec.0.min_replicas'', VInt 1)] \<noteq> None \<and>
     validateConstraints ''spec.0.replicas'' r [(''spec.0.replicas'', VInt 2)] = None \<and>
     validateConstraints ''spec.0.min_replicas'' mn
       [(''spec.0.min_replicas'', VInt 1), (''spec.0.max_replicas'', VInt 4)] = None"
proof -
  let ?both = "[(''spec.0.replicas'', VInt 2), (''spec.0.min_replicas'', VInt 1),
        (''spec.0.max_replicas'', VInt 4)]"
  let ?minOnly = "[(''spec.0.min_replicas'', VInt 1)]"
  let ?fixed = "[(''spec.0.replicas'', VInt 2)]"
  let ?bounds = "[(''spec.0.min_replicas'', VInt 1), (''spec.0.max_replicas'', VInt 4)]"
  from replicas_conflict_with_bounds [of Inl] obtain r mn mx where
    f: "fieldAttrs (matakubeResourceNodeDeploymentSpecFields Inl) [''replicas''] = Some r"
       "fieldAttrs (matakubeResourceNodeDeploymentSpecFields Inl) [''min_replicas''] = Some mn"
    and a: "\<forall>c. map_of c ''spec.0.replicas'' \<noteq> None \<and>
          (map_of c ''spec.0.min_replicas'' \<noteq> None \<or> map_of c ''spec.0.max_replicas'' \<noteq> None) \<longrightarrow>
          validateConstraints ''spec.0.replicas'' r c \<noteq> None"
    and b: "\<forall>c. map_of c ''spec.0.min_replicas'' \<noteq> None \<and> map_of c ''spec.0.max_replicas'' = None \<longrightarrow>
          validateConstraints ''spec.0.min_replicas'' mn c \<noteq> None"
    and c: "\<forall>c. map_of c ''spec.0.min_replicas'' = None \<and> map_of c ''spec.0.max_replicas'' = None \<longrightarrow>
          validateConstraints ''spec.0.replicas'' r c = None"
    and d: "\<forall>c. map_of c ''spec.0.min_replicas'' \<noteq> None \<and> map_of c ''spec.0.max_replicas'' \<noteq> None \<longrightarrow>
          validateConstraints ''spec.0.min_replicas'' mn c = None \<and>
          validateConstraints ''spec.0.max_replicas'' mx c = None"
    by blast
  have "validateConstraints ''spec.0.replicas'' r ?both \<noteq> None"
    using a [rule_format, of ?both] by simp
  moreover have "validateConstraints ''spec.0.min_replicas'' mn ?minOnly \<noteq> None"
    using b [rule_format, of ?minOnly] by simp
  moreover have "validateConstraints ''spec.0.replicas'' r ?fixed = None"
    using c [rule_format, of ?fixed] by simp
  moreover have "validateConstraints ''spec.0.min_replicas'' mn ?bounds = None"
    using d [rule_format, of ?bounds] by simp
  ultimately show ?thesis using f by blast
qed

section \<open>The operating system variants\<close>

lemma exactly_one_pair_rejects:
  "ExactlyOneOf a = [u, f] \<Longrightarrow> u \<noteq> f \<Longrightarrow> k = u \<or> k = f \<Longrightarrow>
   (map_of c u = None \<and> map_of c f = None) \<or> (map_of c u \<noteq> None \<and> map_of c f \<noteq> None) \<Longrightarrow>
     validateConstraints k a c \<noteq> None"
  by (rule exactly_one_rejects) (auto simp: exactly_one_pair)

lemma exactly_one_pair_accepts:
  "ExactlyOneOf a = [u, f] \<Longrightarrow> u \<noteq> f \<Longrightarrow> k = u \<or> k = f \<Longrightarrow>
   (map_of c u \<noteq> None) \<noteq> (map_of c f \<noteq> None) \<Longrightarrow>
     validateExactlyOneAttribute k a c = None"
  by (simp add: exactly_one_pair)

text \<open>
  Claim C6. \<open>ubuntu\<close> and \<open>flatcar\<close> each declare the exactly-one-of constraint over the
  pair of their two keys. Hence a configuration with neither of them, or with both, is
  rejected at both fields, and a configuration with exactly one of them passes the
  exactly-one-of check of both.
\<close>

theorem operating_system_exactly_one:
  "\<exists>ub fc.
     fieldAttrs (matakubeResourceNodeDeploymentSpecFields p)
       [''template'', ''operating_system'', ''ubuntu''] = Some ub \<and>
     fieldAttrs (matakubeResourceNodeDeploymentSpecFields p)
       [''template'', ''operating_system'', ''flatcar''] = Some fc \<and>
     ExactlyOneOf ub = [''spec.0.template.0.operating_system.0.ubuntu'',
                        ''spec.0.template.0.operating_system.0.flatcar''] \<and>
     ExactlyOneOf fc = [''spec.0.template.0.operating_system.0.ubuntu'',
                        ''spec.0.template.0.operating_system.0.flatcar''] \<and>
     (\<forall>c. (map_of c ''spec.0.template.0.operating_system.0.ubuntu'' = None \<and>
           map_of c ''spec.0.template.0.operating_system.0.flatcar'' = None) \<or>
          (map_of c ''spec.0.template.0.operating_system.0.ubuntu'' \<noteq> None \<and>
           map_of c ''spec.0.template.0.operating_system.0.flatcar'' \<noteq> None) \<longrightarrow>
          validateConstraints ''spec.0.template.0.operating_system.0.ubuntu'' ub c \<noteq> None \<and>
          validateConstraints ''spec.0.template.0.operating_system.0.flatcar'' fc c \<noteq> None) \<and>
     (\<forall>c. (map_of c ''spec.0.template.0.operating_system.0.ubuntu'' \<noteq> None) \<noteq>
          (map_of c ''spec.0.template.0.operating_system.0.flatcar'' \<noteq> None) \<longrightarrow>
          validateExactlyOneAttribute ''spec.0.template.0.operating_system.0.ubuntu'' ub c = None \<and>
          validateExactlyOneAttribute ''spec.0.template.0.operating_system.0.flatcar'' fc c = None)"
proof (intro exI conjI allI impI)
  let ?u = "''spec.0.template.0.operating_system.0.ubuntu''"
  let ?f = "''spec.0.template.0.operating_system.0.flatcar''"
  let ?ub = "zeroSchema\<lparr>Type := TypeList, Optional := True, MinItems := 1, MaxItems := 1,
          ExactlyOneOf := [?u, ?f], Description := ''Ubuntu operating system''\<rparr>"
  let ?fc = "zeroSchema\<lparr>Type := TypeList, Optional := True, MinItems := 1, MaxItems := 1,
          ExactlyOneOf := [?u, ?f], Description := ''Flatcar operating system''\<rparr>"
  show "fieldAttrs (matakubeResourceNodeDeploymentSpecFields p)
       [''template'', ''operating_system'', ''ubuntu''] = Some ?ub"
    by (rule ubuntu_attrs)
  show "fieldAttrs (matakubeResourceNodeDeploymentSpecFields p)
       [''template'', ''operating_system'', ''flatcar''] = Some ?fc"
    by (rule flatcar_attrs)
  show eu: "ExactlyOneOf ?ub = [?u, ?f]" by simp
  show ef: "ExactlyOneOf ?fc = [?u, ?f]" by simp
  have ne: "?u \<noteq> ?f" by simp
  { fix c :: ResourceConfig
    assume h: "(map_of c ?u = None \<and> map_of c ?f = None) \<or>
               (map_of c ?u \<noteq> None \<and> map_of c ?f \<noteq> None)"
    show "validateConstraints ?u ?ub c \<noteq> None"
      by (rule exactly_one_pair_rejects [OF eu ne disjI1 [OF refl] h])
    show "validateConstraints ?f ?fc c \<noteq> None"
      by (rule exactly_one_pair_rejects [OF ef ne disjI2 [OF refl] h]) }
  { fix c :: ResourceConfig
    assume h: "(map_of c ?u \<noteq> None) \<noteq> (map_of c ?f \<noteq> None)"
    show "validateExactlyOneAttribute ?u ?ub c = None"
      by (rule exactly_one_pair_accepts [OF eu ne disjI1 [OF refl] h])
    show "validateExactlyOneAttribute ?f ?fc c = None"
      by (rule exactly_one_pair_accepts [OF ef ne disjI2 [OF refl] h]) }
qed

theorem operating_system_exactly_one_witness:
  "\<exists>ub fc.
     fieldAttrs (matakubeResourceNodeDeploymentSpecFields Inl)
       [''template'', ''operating_system'', ''ubuntu''] = Some ub \<and>
     fieldAttrs (matakubeResourceNodeDeploymentSpecFields Inl)
       [''template'', ''operating_system'', ''flatcar''] = Some fc \<and>
     validateConstraints ''spec.0.template.0.operating_system.0.ubuntu'' ub [] \<noteq> None \<and>
     validateConstraints ''spec.0.template.0.operating_system.0.flatcar'' fc
       [(''spec.0.template.0.operating_system.0.ubuntu'', VList []),
        (''spec.0.template.0.operating_system.0.flatcar'', VList [])] \<noteq> None \<and>
     validateExactlyOneAttribute ''spec.0.template.0.operating_system.0.flatcar'' fc
       [(''spec.0.template.0.operating_system.0.flatcar'', VList [])] = None"
proof -
  let ?u = "''spec.0.template.0.operating_system.0.ubuntu''"
  let ?f = "''spec.0.template.0.operating_system.0.flatcar''"
  let ?both = "[(?u, VList []), (?f, VList [])]"
  let ?one = "[(?f, VList [])]"
  from operating_system_exactly_one [of Inl] obtain ub fc where
    f: "fieldAttrs (matakubeResourceNodeDeploymentSpecFields Inl)
          [''template'', ''operating_system'', ''ubuntu''] = Some ub"
       "fieldAttrs (matakubeResourceNodeDeploymentSpecFields Inl)
          [''template'', ''operating_system'', ''flatcar''] = Some fc"
    and a: "\<forall>c. (map_of c ?u = None \<and> map_of c ?f = None) \<or>
          (map_of c ?u \<noteq> None \<and> map_of c ?f \<noteq> None) \<longrightarrow>
          validateConstraints ?u ub c \<noteq> None \<and> validateConstraints ?f fc c \<noteq> None"
    and b: "\<forall>c. (map_of c ?u \<noteq> None) \<noteq> (map_of c ?f \<noteq> None) \<longrightarrow>
          validateExactlyOneAttribute ?u ub c = None \<and>
          validateExactlyOneAttribute ?f fc c = None"
    by blast
  have "validateConstraints ?u ub [] \<noteq> None"
    using a [rule_format, of "[]"] by simp
  moreover have "validateConstraints ?f fc ?both \<noteq> None"
    using a [rule_format, of ?both] by simp
  moreover have "validateExactlyOneAttribute ?f fc ?one = None"
    using b [rule_format, of ?one] by simp
  ultimately show ?thesis using f by blast
qed

section \<open>The diff suppression of replicas\<close>

lemma replicas_suppress_typed:
  "GetOkConfigured d ''spec.0.min_replicas'' = (VInt mi, ok1) \<Longrightarrow>
   GetOkConfigured d ''spec.0.max_replicas'' = (VInt ma, ok2) \<Longrightarrow>
     replicasDiffSuppressFunc k old n d = Inr (ok1 \<and> 0 < mi \<and> ok2 \<and> 0 < ma)"
  by (simp add: replicasDiffSuppressFunc_def)

lemma replicas_suppress_true_iff:
  "replicasDiffSuppressFunc k old n d = Inr True \<longleftrightarrow>
     (\<exists>mi ma. GetOkConfigured d ''spec.0.min_replicas'' = (VInt mi, True) \<and> 0 < mi \<and>
              GetOkConfigured d ''spec.0.max_replicas'' = (VInt ma, True) \<and> 0 < ma)"
  by (cases "GetOkConfigured d ''spec.0.min_replicas''";
      cases "GetOkConfigured d ''spec.0.max_replicas''")
     (auto simp: replicasDiffSuppressFunc_def split: iface.splits)

text \<open>
  Claim C9. The diff-suppression function of \<open>replicas\<close> returns true exactly when
  \<open>spec.0.min_replicas\<close> and \<open>spec.0.max_replicas\<close> are both configured with integers
  greater than zero; whenever the two keys hold integers (as their type \<open>TypeInt\<close>
  says) and one of them is not configured or not positive, it returns false.
\<close>

theorem replicas_diff_suppressed_iff:
  "\<exists>a f. fieldAttrs (matakubeResourceNodeDeploymentSpecFields p) [''replicas''] = Some a \<and>
     DiffSuppressFunc a = Some f \<and>
     (\<forall>k old n d. f k old n d = Inr True \<longleftrightarrow>
        (\<exists>mi ma. GetOkConfigured d ''spec.0.min_replicas'' = (VInt mi, True) \<and> 0 < mi \<and>
                 GetOkConfigured d ''spec.0.max_replicas'' = (VInt ma, True) \<and> 0 < ma)) \<and>
     (\<forall>k old n d mi ma ok1 ok2.
        GetOkConfigured d ''spec.0.min_replicas'' = (VInt mi, ok1) \<and>
        GetOkConfigured d ''spec.0.max_replicas'' = (VInt ma, ok2) \<longrightarrow>
        f k old n d = Inr (ok1 \<and> 0 < mi \<and> ok2 \<and> 0 < ma))"
proof (intro exI conjI allI impI)
  let ?r = "zeroSchema\<lparr>Type := TypeInt, Optional := True, Default := Some (VInt 3),
          Description := ''Number of replicas'',
          ConflictsWith := [''spec.0.min_replicas'', ''spec.0.max_replicas''],
          DiffSuppressFunc := Some replicasDiffSuppressFunc\<rparr>"
  show "fieldAttrs (matakubeResourceNodeDeploymentSpecFields p) [''replicas''] = Some ?r"
    by (rule replicas_attrs)
  show "DiffSuppressFunc ?r = Some replicasDiffSuppressFunc" by simp
  show "replicasDiffSuppressFunc k old n d = Inr True \<longleftrightarrow>
        (\<exists>mi ma. GetOkConfigured d ''spec.0.min_replicas'' = (VInt mi, True) \<and> 0 < mi \<and>
                 GetOkConfigured d ''spec.0.max_replicas'' = (VInt ma, True) \<and> 0 < ma)"
    for k old n d
    by (rule replicas_suppress_true_iff)
  show "replicasDiffSuppressFunc k old n d = Inr (ok1 \<and> 0 < mi \<and> ok2 \<and> 0 < ma)"
    if "GetOkConfigured d ''spec.0.min_replicas'' = (VInt mi, ok1) \<and>
        GetOkConfigured d ''spec.0.max_replicas'' = (VInt ma, ok2)"
    for k old n d mi ma ok1 ok2
    using that by (simp add: replicas_suppress_typed)
qed

theorem replicas_diff_suppressed_iff_witness:
  "\<exists>a f. fieldAttrs (matakubeResourceNodeDeploymentSpecFields Inl) [''replicas''] = Some a \<and>
     DiffSuppressFunc a = Some f \<and>
     f ''spec.0.replicas'' ''3'' ''5''
       \<lparr>GetOkConfigured = (\<lambda>key. if key = ''spec.0.min_replicas'' then (VInt 1, True)
          else if key = ''spec.0.max_replicas'' then (VInt 4, True) else (VNil, False))\<rparr> = Inr True \<and>
     f ''spec.0.replicas'' ''3'' ''5''
       \<lparr>GetOkConfigured = (\<lambda>key. if key = ''spec.0.min_replicas'' then (VInt 1, True)
          else if key = ''spec.0.max_replicas'' then (VInt 0, False) else (VNil, False))\<rparr> = Inr False"
proof -
  let ?d1 = "\<lparr>GetOkConfigured = (\<lambda>key. if key = ''spec.0.min_replicas'' then (VInt 1, True)
          else if key = ''spec.0.max_replicas'' then (VInt 4, True) else (VNil, False))\<rparr>"
  let ?d2 = "\<lparr>GetOkConfigured = (\<lambda>key. if key = ''spec.0.min_replicas'' then (VInt 1, True)
          else if key = ''spec.0.max_replicas'' then (VInt 0, False) else (VNil, False))\<rparr>"
  from replicas_diff_suppressed_iff [of Inl] obtain a f where
    f: "fieldAttrs (matakubeResourceNodeDeploymentSpecFields Inl) [''replicas''] = Some a"
       "DiffSuppressFunc a = Some f"
    and t: "\<forall>k old n d mi ma ok1 ok2.
        GetOkConfigured d ''spec.0.min_replicas'' = (VInt mi, ok1) \<and>
        GetOkConfigured d ''spec.0.max_replicas'' = (VInt ma, ok2) \<longrightarrow>
        f k old n d = Inr (ok1 \<and> 0 < mi \<and> ok2 \<and> 0 < ma)"
    by blast
  have "f ''spec.0.replicas'' ''3'' ''5'' ?d1 = Inr True"
    using t [rule_format, of ?d1 1 True 4 True] by simp
  moreover have "f ''spec.0.replicas'' ''3'' ''5'' ?d2 = Inr False"
    using t [rule_format, of ?d2 1 True 0 False] by simp
  ultimately show ?thesis using f by blast
qed

section \<open>The taint effect\<close>

lemma stringInSliceRange_iff: "stringInSliceRange v valid \<longleftrightarrow> v \<in> set valid"
  by (induction valid) auto

lemma StringInSlice_accepts:
  "StringInSlice valid False (VString s) k = Inr ([], []) \<longleftrightarrow> s \<in> set valid"
  by (simp add: stringInSliceRange_iff)

lemma StringInSlice_rejects:
  "s \<notin> set valid \<Longrightarrow>
     \<exists>err. StringInSlice valid False (VString s) k = Inr ([], [err])"
  by (simp add: stringInSliceRange_iff)

lemma effect_validate_func:
  "map_option ValidateFunc (fieldAttrs (matakubeResourceNodeDeploymentSpecFields p)
       [''template'', ''taints'', ''effect'']) =
     Some (Some (StringInSlice [''NoSchedule'', ''PreferNoSchedule'', ''NoExecute''] False))"
  by (simp add: effect_attrs)

text \<open>
  Claim C10. The validator of a taint's \<open>effect\<close> accepts exactly the strings
  \<open>NoSchedule\<close>, \<open>PreferNoSchedule\<close> and \<open>NoExecute\<close>, compared by case, and returns
  one error for every other string.
\<close>

theorem taint_effect_validator:
  "\<exists>f. map_option ValidateFunc (fieldAttrs (matakubeResourceNodeDeploymentSpecFields p)
       [''template'', ''taints'', ''effect'']) = Some (Some f) \<and>
     (\<forall>s k. f (VString s) k = Inr ([], []) \<longleftrightarrow>
        s \<in> {''NoSchedule'', ''PreferNoSchedule'', ''NoExecute''}) \<and>
     (\<forall>s k. s \<notin> {''NoSchedule'', ''PreferNoSchedule'', ''NoExecute''} \<longrightarrow>
        (\<exists>err. f (VString s) k = Inr ([], [err])))"
proof -
  let ?f = "StringInSlice [''NoSchedule'', ''PreferNoSchedule'', ''NoExecute''] False"
  have v: "set [''NoSchedule'', ''PreferNoSchedule'', ''NoExecute''] =
      {''NoSchedule'', ''PreferNoSchedule'', ''NoExecute''}"
    by (simp only: list.set)
  have acc: "\<forall>s k. ?f (VString s) k = Inr ([], []) \<longleftrightarrow>
        s \<in> {''NoSchedule'', ''PreferNoSchedule'', ''NoExecute''}"
    unfolding StringInSlice_accepts v by (intro allI refl)
  have rej: "\<forall>s k. s \<notin> {''NoSchedule'', ''PreferNoSchedule'', ''NoExecute''} \<longrightarrow>
        (\<exists>err. ?f (VString s) k = Inr ([], [err]))"
    using StringInSlice_rejects [of _ "[''NoSchedule'', ''PreferNoSchedule'', ''NoExecute'']"]
    unfolding v by (intro allI impI)
  show ?thesis
    by (rule exI [of _ ?f]) (intro conjI effect_validate_func acc rej)
qed

theorem taint_effect_validator_witness:
  "\<exists>f. map_option ValidateFunc (fieldAttrs (matakubeResourceNodeDeploymentSpecFields Inl)
       [''template'', ''taints'', ''effect'']) = Some (Some f) \<and>
     f (VString ''NoExecute'') ''effect'' = Inr ([], []) \<and>
     (\<exists>err. f (VString ''noschedule'') ''effect'' = Inr ([], [err]))"
proof -
  from taint_effect_validator [of Inl] obtain f where
    f: "map_option ValidateFunc (fieldAttrs (matakubeResourceNodeDeploymentSpecFields Inl)
          [''template'', ''taints'', ''effect'']) = Some (Some f)"
    and acc: "\<forall>s k. f (VString s) k = Inr ([], []) \<longleftrightarrow>
        s \<in> {''NoSchedule'', ''PreferNoSchedule'', ''NoExecute''}"
    and rej: "\<forall>s k. s \<notin> {''NoSchedule'', ''PreferNoSchedule'', ''NoExecute''} \<longrightarrow>
        (\<exists>err. f (VString s) k = Inr ([], [err]))"
    by (elim exE conjE)
  have a: "f (VString ''NoExecute'') ''effect'' = Inr ([], [])"
    using acc [rule_format, of "''NoExecute''" "''effect''"] by simp
  have r: "\<exists>err. f (VString ''noschedule'') ''effect'' = Inr ([], [err])"
    using rej [rule_format, of "''noschedule''" "''effect''"] by simp
  show ?thesis
    by (rule exI [of _ f]) (intro conjI f a r)
qed

section \<open>The cloud backends\<close>

lemma unconstrained_field:
  "fieldAttrs m path = Some a \<Longrightarrow> Optional a \<Longrightarrow> \<not> Required a \<Longrightarrow>
   ExactlyOneOf a = [] \<Longrightarrow> ConflictsWith a = [] \<Longrightarrow> RequiredWith a = [] \<Longrightarrow>
   \<exists>a. fieldAttrs m path = Some a \<and> Optional a \<and> \<not> Required a \<and>
       ExactlyOneOf a = [] \<and> ConflictsWith a = [] \<and> RequiredWith a = [] \<and>
       (\<forall>k c. validateConstraints k a c = None)"
  by (simp add: unconstrained_accepts)

text \<open>
  Claim C1, as amended. The cloud block of the node template declares no
  choose-exactly-one constraint among the four cloud backends: each of \<open>aws\<close>,
  \<open>openstack\<close>, \<open>azure\<close> and \<open>bringyourown\<close> is optional and declares no
  exactly-one-of, conflicts-with or required-with constraint, so the constraint checks
  of these fields accept every configuration, whatever number of backends it selects.
\<close>

theorem cloud_backends_declare_no_exclusivity:
  "(\<exists>a. fieldAttrs (matakubeResourceNodeDeploymentSpecFields p)
        [''template'', ''cloud'', ''aws''] = Some a \<and>
      Optional a \<and> \<not> Required a \<and>
      ExactlyOneOf a = [] \<and> ConflictsWith a = [] \<and> RequiredWith a = [] \<and>
      (\<forall>k c. validateConstraints k a c = None)) \<and>
   (\<exists>a. fieldAttrs (matakubeResourceNodeDeploymentSpecFields p)
        [''template'', ''cloud'', ''openstack''] = Some a \<and>
      Optional a \<and> \<not> Required a \<and>
      ExactlyOneOf a = [] \<and> ConflictsWith a = [] \<and> RequiredWith a = [] \<and>
      (\<forall>k c. validateConstraints k a c = None)) \<and>
   (\<exists>a. fieldAttrs (matakubeResourceNodeDeploymentSpecFields p)
        [''template'', ''cloud'', ''azure''] = Some a \<and>
      Optional a \<and> \<not> Required a \<and>
      ExactlyOneOf a = [] \<and> ConflictsWith a = [] \<and> RequiredWith a = [] \<and>
      (\<forall>k c. validateConstraints k a c = None)) \<and>
   (\<exists>a. fieldAttrs (matakubeResourceNodeDeploymentSpecFields p)
        [''template'', ''cloud'', ''bringyourown''] = Some a \<and>
      Optional a \<and> \<not> Required a \<and>
      ExactlyOneOf a = [] \<and> ConflictsWith a = [] \<and> RequiredWith a = [] \<and>
      (\<forall>k c. validateConstraints k a c = None))"
proof (intro conjI)
  show "\<exists>a. fieldAttrs (matakubeResourceNodeDeploymentSpecFields p)
        [''template'', ''cloud'', ''aws''] = Some a \<and>
      Optional a \<and> \<not> Required a \<and>
      ExactlyOneOf a = [] \<and> ConflictsWith a = [] \<and> RequiredWith a = [] \<and>
      (\<forall>k c. validateConstraints k a c = None)"
    by (rule unconstrained_field [OF aws_attrs]) (simp_all add: zeroSchema_def)
  show "\<exists>a. fieldAttrs (matakubeResourceNodeDeploymentSpecFields p)
        [''template'', ''cloud'', ''openstack''] = Some a \<and>
      Optional a \<and> \<not> Required a \<and>
      ExactlyOneOf a = [] \<and> ConflictsWith a = [] \<and> RequiredWith a = [] \<and>
      (\<forall>k c. validateConstraints k a c = None)"
    by (rule unconstrained_field [OF openstack_attrs]) (simp_all add: zeroSchema_def)
  show "\<exists>a. fieldAttrs (matakubeResourceNodeDeploymentSpecFields p)
        [''template'', ''cloud'', ''azure''] = Some a \<and>
      Optional a \<and> \<not> Required a \<and>
      ExactlyOneOf a = [] \<and> ConflictsWith a = [] \<and> RequiredWith a = [] \<and>
      (\<forall>k c. validateConstraints k a c = None)"
    by (rule unconstrained_field [OF azure_attrs]) (simp_all add: zeroSchema_def)
  show "\<exists>a. fieldAttrs (matakubeResourceNodeDeploymentSpecFields p)
        [''template'', ''cloud'', ''bringyourown''] = Some a \<and>
      Optional a \<and> \<not> Required a \<and>
      ExactlyOneOf a = [] \<and> ConflictsWith a = [] \<and> RequiredWith a = [] \<and>
      (\<forall>k c. validateConstraints k a c = None)"
    by (rule unconstrained_field [OF bringyourown_attrs]) (simp_all add: zeroSchema_def)
qed

theorem cloud_backends_declare_no_exclusivity_witness:
  "\<exists>a. fieldAttrs (matakubeResourceNodeDeploymentSpecFields Inl)
        [''template'', ''cloud'', ''aws''] = Some a \<and>
      ExactlyOneOf a = [] \<and>
      validateConstraints ''spec.0.template.0.cloud.0.aws'' a
        [(''spec.0.template.0.cloud.0.aws'', VList []),
         (''spec.0.template.0.cloud.0.azure'', VList [])] = None"
proof -
  from cloud_backends_declare_no_exclusivity [of Inl, THEN conjunct1] obtain a where
    f: "fieldAttrs (matakubeResourceNodeDeploymentSpecFields Inl)
        [''template'', ''cloud'', ''aws''] = Some a"
    and e: "ExactlyOneOf a = []"
    and v: "\<forall>k c. validateConstraints k a c = None"
    by (elim exE conjE)
  show ?thesis
    by (rule exI [of _ a]) (intro conjI f e v [rule_format])
qed

lemma cloud_field_accepts:
  "fieldAttrs m path = Some a \<Longrightarrow>
   ExactlyOneOf a = [] \<Longrightarrow> ConflictsWith a = [] \<Longrightarrow> RequiredWith a = [] \<Longrightarrow>
     map_option ExactlyOneOf (fieldAttrs m path) = Some [] \<and>
     validateConstraints k (the (fieldAttrs m path)) c = None"
  by (simp add: unconstrained_accepts)

text \<open>
  Claim C1 as stated fails: none of the four backend fields declares an exactly-one-of
  constraint, and a configuration that selects both \<open>aws\<close> and \<open>openstack\<close> passes the
  constraint checks of all four. (The parser argument \<open>Inl\<close> rejects every text; the
  cloud fields do not depend on it.)
\<close>

theorem cloud_exactly_one_counterexample:
  "(map_option ExactlyOneOf (fieldAttrs (matakubeResourceNodeDeploymentSpecFields Inl)
      [''template'', ''cloud'', ''aws'']) = Some [] \<and>
    validateConstraints ''spec.0.template.0.cloud.0.aws''
      (the (fieldAttrs (matakubeResourceNodeDeploymentSpecFields Inl)
         [''template'', ''cloud'', ''aws'']))
      [(''spec.0.template.0.cloud.0.aws'', VList []),
       (''spec.0.template.0.cloud.0.openstack'', VList [])] = None) \<and>
   (map_option ExactlyOneOf (fieldAttrs (matakubeResourceNodeDeploymentSpecFields Inl)
      [''template'', ''cloud'', ''openstack'']) = Some [] \<and>
    validateConstraints ''spec.0.template.0.cloud.0.openstack''
      (the (fieldAttrs (matakubeResourceNodeDeploymentSpecFields Inl)
         [''template'', ''cloud'', ''openstack'']))
      [(''spec.0.template.0.cloud.0.aws'', VList []),
       (''spec.0.template.0.cloud.0.openstack'', VList [])] = None) \<and>
   (map_option ExactlyOneOf (fieldAttrs (matakubeResourceNodeDeploymentSpecFields Inl)
      [''template'', ''cloud'', ''azure'']) = Some [] \<and>
    validateConstraints ''spec.0.template.0.cloud.0.azure''
      (the (fieldAttrs (matakubeResourceNodeDeploymentSpecFields Inl)
         [''template'', ''cloud'', ''azure'']))
      [(''spec.0.template.0.cloud.0.aws'', VList []),
       (''spec.0.template.0.cloud.0.openstack'', VList [])] = None) \<and>
   (map_option ExactlyOneOf (fieldAttrs (matakubeResourceNodeDeploymentSpecFields Inl)
      [''template'', ''cloud'', ''bringyourown'']) = Some [] \<and>
    validateConstraints ''spec.0.template.0.cloud.0.bringyourown''
      (the (fieldAttrs (matakubeResourceNodeDeploymentSpecFields Inl)
         [''template'', ''cloud'', ''bringyourown'']))
      [(''spec.0.template.0.cloud.0.aws'', VList []),
       (''spec.0.template.0.cloud.0.openstack'', VList [])] = None) \<and>
   map_of [(''spec.0.template.0.cloud.0.aws'', VList []),
           (''spec.0.template.0.cloud.0.openstack'', VList [])]
     ''spec.0.template.0.cloud.0.aws'' = Some (VList []) \<and>
   map_of [(''spec.0.template.0.cloud.0.aws'', VList []),
           (''spec.0.template.0.cloud.0.openstack'', VList [])]
     ''spec.0.template.0.cloud.0.openstack'' = Some (VList [])"
proof -
  let ?cfg = "[(''spec.0.template.0.cloud.0.aws'', VList []),
       (''spec.0.template.0.cloud.0.openstack'', VList [])]"
  have A: "map_option ExactlyOneOf (fieldAttrs (matakubeResourceNodeDeploymentSpecFields Inl)
      [''template'', ''cloud'', ''aws'']) = Some [] \<and>
    validateConstraints ''spec.0.template.0.cloud.0.aws''
      (the (fieldAttrs (matakubeResourceNodeDeploymentSpecFields Inl)
         [''template'', ''cloud'', ''aws''])) ?cfg = None"
    by (rule cloud_field_accepts [OF aws_attrs]) (simp_all add: zeroSchema_def)
  have O: "map_option ExactlyOneOf (fieldAttrs (matakubeResourceNodeDeploymentSpecFields Inl)
      [''template'', ''cloud'', ''openstack'']) = Some [] \<and>
    validateConstraints ''spec.0.template.0.cloud.0.openstack''
      (the (fieldAttrs (matakubeResourceNodeDeploymentSpecFields Inl)
         [''template'', ''cloud'', ''openstack''])) ?cfg = None"
    by (rule cloud_field_accepts [OF openstack_attrs]) (simp_all add: zeroSchema_def)
  have Z: "map_option ExactlyOneOf (fieldAttrs (matakubeResourceNodeDeploymentSpecFields Inl)
      [''template'', ''cloud'', ''azure'']) = Some [] \<and>
    validateConstraints ''spec.0.template.0.cloud.0.azure''
      (the (fieldAttrs (matakubeResourceNodeDeploymentSpecFields Inl)
         [''template'', ''cloud'', ''azure''])) ?cfg = None"
    by (rule cloud_field_accepts [OF azure_attrs]) (simp_all add: zeroSchema_def)
  have B: "map_option ExactlyOneOf (fieldAttrs (matakubeResourceNodeDeploymentSpecFields Inl)
      [''template'', ''cloud'', ''bringyourown'']) = Some [] \<and>
    validateConstraints ''spec.0.template.0.cloud.0.bringyourown''
      (the (fieldAttrs (matakubeResourceNodeDeploymentSpecFields Inl)
         [''template'', ''cloud'', ''bringyourown''])) ?cfg = None"
    by (rule cloud_field_accepts [OF bringyourown_attrs]) (simp_all add: zeroSchema_def)
  have M1: "map_of ?cfg ''spec.0.template.0.cloud.0.aws'' = Some (VList [])" by simp
  have M2: "map_of ?cfg ''spec.0.template.0.cloud.0.openstack'' = Some (VList [])" by simp
  show ?thesis
    by (intro conjI A [THEN conjunct1] A [THEN conjunct2] O [THEN conjunct1] O [THEN conjunct2]
        Z [THEN conjunct1] Z [THEN conjunct2] B [THEN conjunct1] B [THEN conjunct2] M1 M2)
qed

end
